theory Spec2Isabelle
  imports Main "HOL-Library.Word" "HOL-Library.Sublist"
begin

unbundle bit_operations_syntax

section \<open>Grammar IR\<close>

text \<open>
  The grammar keeps its expressions in one append-only arena and refers to them by index.
  An index always denotes the same expression, so the embedding writes an expression id as
  the expression it indexes: a \<open>GrammarExpr\<close> is the tree that the arena entry and its
  children spell out.  The id \<open>-1\<close> (no expression) is \<open>None\<close>.  Rule ids stay numbers.
\<close>

text \<open>
  Modelled from the spec: the struct \<open>Grammar::Impl::TagDispatch\<close> is declared outside the
  sources at hand.  The fields are those of the spec's data model.  The grammar functors
  read and write the first four; the excluded strings are filled by the structural-tag
  lowering and read by the compiler's tag-dispatch optimization.
\<close>

record TagDispatch =
  tag_rule_pairs :: "(string \<times> int) list"
  stop_eos :: bool
  stop_str :: "string list"
  loop_after_dispatch :: bool
  excluded_str :: "string list"

datatype GrammarExpr =
    ByteString "int list"
  | CharacterClass bool "(int \<times> int) list"
  | CharacterClassStar bool "(int \<times> int) list"
  | EmptyStr
  | RuleRef int
  | Sequence "GrammarExpr list"
  | Choices "GrammarExpr list"
  | Repeat int int int
  | TagDispatchExpr TagDispatch

record Rule =
  name :: string
  body_expr_id :: "GrammarExpr option"
  lookahead_assertion_id :: "GrammarExpr option"
  is_exact_lookahead :: bool

record Grammar =
  rules :: "Rule list"
  root_rule_id :: nat

subsection \<open>GrammarBuilder\<close>

text \<open>
  Modelled from the spec: the builder class itself is not part of the sources at hand.  It is
  an append-only list of rules; \<open>AddEmptyRule\<close> reserves the next rule id,
  \<open>UpdateRuleBody\<close> and \<open>UpdateLookaheadAssertion\<close> fill a reserved rule, and
  \<open>GetNewRuleName\<close> disambiguates a name hint against the names in use by appending
  \<open>_1\<close>, \<open>_2\<close>, ...
\<close>

type_synonym GrammarBuilder = "Rule list"

fun digits_of :: "nat \<Rightarrow> nat \<Rightarrow> string" where
  "digits_of 0 n = []"
| "digits_of (Suc fuel) n =
     (if n < 10 then [char_of (48 + n)]
      else digits_of fuel (n div 10) @ [char_of (48 + n mod 10)])"

definition to_string :: "nat \<Rightarrow> string" where
  "to_string n = digits_of (Suc n) n"

fun first_free_name :: "string list \<Rightarrow> string \<Rightarrow> nat \<Rightarrow> nat \<Rightarrow> string" where
  "first_free_name used hint k 0 = hint @ ''_'' @ to_string k"
| "first_free_name used hint k (Suc fuel) =
     (if hint @ ''_'' @ to_string k \<in> set used
      then first_free_name used hint (Suc k) fuel
      else hint @ ''_'' @ to_string k)"

definition GetNewRuleName :: "GrammarBuilder \<Rightarrow> string \<Rightarrow> string" where
  "GetNewRuleName b hint =
     (if hint \<in> set (map name b) then first_free_name (map name b) hint 1 (length b)
      else hint)"

definition AddEmptyRule :: "GrammarBuilder \<Rightarrow> string \<Rightarrow> nat \<times> GrammarBuilder" where
  "AddEmptyRule b nm =
     (length b,
      b @ [\<lparr>name = nm, body_expr_id = None, lookahead_assertion_id = None,
            is_exact_lookahead = False\<rparr>])"

definition AddRule :: "GrammarBuilder \<Rightarrow> string \<Rightarrow> GrammarExpr \<Rightarrow> nat \<times> GrammarBuilder" where
  "AddRule b nm body =
     (length b,
      b @ [\<lparr>name = nm, body_expr_id = Some body, lookahead_assertion_id = None,
            is_exact_lookahead = False\<rparr>])"

definition AddRuleWithHint :: "GrammarBuilder \<Rightarrow> string \<Rightarrow> GrammarExpr \<Rightarrow> nat \<times> GrammarBuilder" where
  "AddRuleWithHint b hint body = AddRule b (GetNewRuleName b hint) body"

definition UpdateRuleBody :: "GrammarBuilder \<Rightarrow> nat \<Rightarrow> GrammarExpr \<Rightarrow> GrammarBuilder" where
  "UpdateRuleBody b i body = b[i := (b ! i)\<lparr>body_expr_id := Some body\<rparr>]"

definition UpdateLookaheadAssertion ::
  "GrammarBuilder \<Rightarrow> nat \<Rightarrow> GrammarExpr option \<Rightarrow> GrammarBuilder" where
  "UpdateLookaheadAssertion b i la = b[i := (b ! i)\<lparr>lookahead_assertion_id := la\<rparr>]"

section \<open>SubGrammarAdder\<close>

text \<open>
  \<open>new_rule_ids_names\<close> maps each rule id of the sub-grammar to its new id and name in
  the builder.  Indexing it out of range is undefined in the source; the model returns
  \<open>None\<close> there.
\<close>

definition new_rule_id :: "(nat \<times> string) list \<Rightarrow> int \<Rightarrow> int option" where
  "new_rule_id new_rule_ids_names rule_id =
     (if 0 \<le> rule_id \<and> nat rule_id < length new_rule_ids_names
      then Some (int (fst (new_rule_ids_names ! nat rule_id)))
      else None)"









section \<open>Results and failures\<close>

text \<open>
  A \<open>Result<T, E>\<close> of the source is \<open>Ok\<close> or \<open>Err\<close>.  A call can also end without
  returning: a failed check or the recursion guard raises, and an out-of-range access is
  undefined.  The model makes that a third outcome, \<open>Aborted\<close>.
\<close>

datatype ('e, 'a) Result = Ok 'a | Err 'e | Aborted

type_synonym ISTError = string

datatype StructuralTagError = InvalidJSONError string | InvalidStructuralTagError ISTError

section \<open>Structural tag formats\<close>

text \<open>
  The \<open>Format\<close> variant of \<open>structural_tag.h\<close>.  The fields the analyzer fills in
  (\<open>detected_end_strs_\<close>, \<open>is_unlimited_\<close>) are the last argument of their constructor.
  \<^item> \<open>AnyTextFormat excludes detected_end_strs_\<close>
  \<^item> \<open>SequenceFormat elements is_unlimited_\<close>, \<open>OrFormat elements is_unlimited_\<close>
  \<^item> \<open>TriggeredTagsFormat triggers tags excludes at_least_one stop_after_first detected_end_strs_\<close>
  \<^item> \<open>TagsWithSeparatorFormat tags separator at_least_one stop_after_first detected_end_strs_\<close>
  \<^item> \<open>TagFormat begin content end\<close>
\<close>

datatype Format =
    ConstStringFormat string
  | JSONSchemaFormat string string
  | AnyTextFormat "string list" "string list"
  | GrammarFormat string
  | RegexFormat string "string list"
  | SequenceFormat "Format list" bool
  | OrFormat "Format list" bool
  | TagFormatV TagFormat
  | TriggeredTagsFormat "string list" "TagFormat list" "string list" bool bool "string list"
  | TagsWithSeparatorFormat "TagFormat list" string bool bool "string list"
and TagFormat = TagFormat string Format "string list"

section \<open>StructuralTagAnalyzer\<close>

text \<open>
  The analyzer of the implementation whose data model is that of \<open>structural_tag.h\<close>
  (the one with \<open>IsExcluded\<close>).  It mutates the format in place; the model returns the
  analysed format.  \<open>stack_\<close> is the list of the enclosing formats, innermost first; only
  the end strings of the nearest enclosing tag are ever read from it, and a tag's end
  strings are cleared only after its content has been visited, so the stack can hold the
  formats as they were when pushed.  The recursion guard (not among the sources; modelled
  from the spec) raises once the depth, which is the length of the stack, reaches the
  maximum \<open>md\<close>.
\<close>

fun DetectEndStrings :: "Format list \<Rightarrow> string list" where
  "DetectEndStrings [] = []"
| "DetectEndStrings (TagFormatV (TagFormat b c e) # stack) = e"
| "DetectEndStrings (f # stack) = DetectEndStrings stack"

fun IsUnlimited :: "Format \<Rightarrow> bool" where
  "IsUnlimited (AnyTextFormat ex de) = True"
| "IsUnlimited (TriggeredTagsFormat tr tags ex alo saf de) = True"
| "IsUnlimited (TagsWithSeparatorFormat tags sep alo saf de) = True"
| "IsUnlimited (SequenceFormat es u) = u"
| "IsUnlimited (OrFormat es u) = u"
| "IsUnlimited f = False"

fun IsExcluded :: "Format \<Rightarrow> bool" where
  "IsExcluded (AnyTextFormat ex de) = (ex \<noteq> [])"
| "IsExcluded (TriggeredTagsFormat tr tags ex alo saf de) = (ex \<noteq> [])"
| "IsExcluded f = False"

definition unlimited_error :: "nat \<Rightarrow> ISTError" where
  "unlimited_error i =
     ''Only the last element in a sequence can be unlimited, but the '' @ to_string i @
     ''th element of sequence format is unlimited''"

definition or_error :: ISTError where
  "or_error = ''Now we only support all elements in an or format to be unlimited or all limited, but the or format has both unlimited and limited elements''"

definition tag_end_error :: ISTError where
  "tag_end_error = ''When the content is unlimited, at least one end string must be non-empty''"

text \<open>
  \<open>Analyzer_Visit\<close> is \<open>Visit\<close> (guard, push, dispatch to \<open>VisitSub\<close>, pop);
  \<open>Analyzer_VisitSub_Sequence\<close> is the loop of \<open>VisitSub(SequenceFormat*)\<close> from index
  \<open>i\<close> on, returning the analysed elements and the value of \<open>is_unlimited_\<close>.  With no
  elements the source computes \<open>size() - 1\<close> on an unsigned size and reads \<open>back()\<close> of
  an empty vector: undefined, \<open>Aborted\<close> here.
\<close>

fun Analyzer_Visit :: "nat \<Rightarrow> Format list \<Rightarrow> Format \<Rightarrow> (ISTError, Format) Result"
and Analyzer_VisitTag :: "nat \<Rightarrow> Format list \<Rightarrow> TagFormat \<Rightarrow> (ISTError, TagFormat) Result"
and Analyzer_VisitSub_Sequence ::
  "nat \<Rightarrow> Format list \<Rightarrow> nat \<Rightarrow> Format list \<Rightarrow> (ISTError, Format list \<times> bool) Result"
and Analyzer_VisitSub_Or ::
  "nat \<Rightarrow> Format list \<Rightarrow> Format list \<Rightarrow> (ISTError, Format list \<times> bool \<times> bool) Result"
and Analyzer_VisitTags :: "nat \<Rightarrow> Format list \<Rightarrow> TagFormat list \<Rightarrow> (ISTError, TagFormat list) Result"
where
  "Analyzer_Visit md stack (ConstStringFormat v) =
     (if md \<le> length stack then Aborted else Ok (ConstStringFormat v))"
| "Analyzer_Visit md stack (JSONSchemaFormat s st) =
     (if md \<le> length stack then Aborted else Ok (JSONSchemaFormat s st))"
| "Analyzer_Visit md stack (AnyTextFormat ex de) =
     (if md \<le> length stack then Aborted
      else Ok (AnyTextFormat ex (DetectEndStrings (AnyTextFormat ex de # stack))))"
| "Analyzer_Visit md stack (GrammarFormat g) =
     (if md \<le> length stack then Aborted else Ok (GrammarFormat g))"
| "Analyzer_Visit md stack (RegexFormat p ex) =
     (if md \<le> length stack then Aborted else Ok (RegexFormat p ex))"
| "Analyzer_Visit md stack (SequenceFormat es u) =
     (if md \<le> length stack then Aborted
      else (case Analyzer_VisitSub_Sequence md (SequenceFormat es u # stack) 0 es of
              Ok (es', u') \<Rightarrow> Ok (SequenceFormat es' u')
            | Err err \<Rightarrow> Err err
            | Aborted \<Rightarrow> Aborted))"
| "Analyzer_Visit md stack (OrFormat es u) =
     (if md \<le> length stack then Aborted
      else (case Analyzer_VisitSub_Or md (OrFormat es u # stack) es of
              Ok (es', is_any_unlimited, is_all_unlimited) \<Rightarrow>
                if is_any_unlimited \<and> \<not> is_all_unlimited then Err or_error
                else Ok (OrFormat es' is_any_unlimited)
            | Err err \<Rightarrow> Err err
            | Aborted \<Rightarrow> Aborted))"
| "Analyzer_Visit md stack (TagFormatV t) =
     (case Analyzer_VisitTag md stack t of
        Ok t' \<Rightarrow> Ok (TagFormatV t')
      | Err err \<Rightarrow> Err err
      | Aborted \<Rightarrow> Aborted)"
| "Analyzer_Visit md stack (TriggeredTagsFormat tr tags ex alo saf de) =
     (if md \<le> length stack then Aborted
      else (case Analyzer_VisitTags md (TriggeredTagsFormat tr tags ex alo saf de # stack) tags of
              Ok tags' \<Rightarrow>
                Ok (TriggeredTagsFormat tr tags' ex alo saf
                      (DetectEndStrings (TriggeredTagsFormat tr tags ex alo saf de # stack)))
            | Err err \<Rightarrow> Err err
            | Aborted \<Rightarrow> Aborted))"
| "Analyzer_Visit md stack (TagsWithSeparatorFormat tags sep alo saf de) =
     (if md \<le> length stack then Aborted
      else (case Analyzer_VisitTags md (TagsWithSeparatorFormat tags sep alo saf de # stack) tags of
              Ok tags' \<Rightarrow>
                Ok (TagsWithSeparatorFormat tags' sep alo saf
                      (DetectEndStrings (TagsWithSeparatorFormat tags sep alo saf de # stack)))
            | Err err \<Rightarrow> Err err
            | Aborted \<Rightarrow> Aborted))"
| "Analyzer_VisitTag md stack (TagFormat b c e) =
     (if md \<le> length stack then Aborted
      else (case Analyzer_Visit md (TagFormatV (TagFormat b c e) # stack) c of
              Ok c' \<Rightarrow>
                if IsUnlimited c' then
                  (if \<exists>end_str \<in> set e. end_str \<noteq> [] then Ok (TagFormat b c' [])
                   else if IsExcluded c' then Ok (TagFormat b c' e)
                   else Err tag_end_error)
                else Ok (TagFormat b c' e)
            | Err err \<Rightarrow> Err err
            | Aborted \<Rightarrow> Aborted))"
| "Analyzer_VisitSub_Sequence md stack i [] = Aborted"
| "Analyzer_VisitSub_Sequence md stack i [element] =
     (case Analyzer_Visit md stack element of
        Ok element' \<Rightarrow> Ok ([element'], IsUnlimited element' \<and> \<not> IsExcluded element')
      | Err err \<Rightarrow> Err err
      | Aborted \<Rightarrow> Aborted)"
| "Analyzer_VisitSub_Sequence md stack i (element # next # rest) =
     (case Analyzer_Visit md stack element of
        Ok element' \<Rightarrow>
          if IsUnlimited element' \<and> \<not> IsExcluded element' then Err (unlimited_error i)
          else (case Analyzer_VisitSub_Sequence md stack (Suc i) (next # rest) of
                  Ok (es', u) \<Rightarrow> Ok (element' # es', u)
                | Err err \<Rightarrow> Err err
                | Aborted \<Rightarrow> Aborted)
      | Err err \<Rightarrow> Err err
      | Aborted \<Rightarrow> Aborted)"
| "Analyzer_VisitSub_Or md stack [] = Ok ([], False, True)"
| "Analyzer_VisitSub_Or md stack (element # rest) =
     (case Analyzer_Visit md stack element of
        Ok element' \<Rightarrow>
          (case Analyzer_VisitSub_Or md stack rest of
             Ok (es', any_u, all_u) \<Rightarrow>
               (let is_unlimited = IsUnlimited element' \<and> \<not> IsExcluded element'
                in Ok (element' # es', is_unlimited \<or> any_u, is_unlimited \<and> all_u))
           | Err err \<Rightarrow> Err err
           | Aborted \<Rightarrow> Aborted)
      | Err err \<Rightarrow> Err err
      | Aborted \<Rightarrow> Aborted)"
| "Analyzer_VisitTags md stack [] = Ok []"
| "Analyzer_VisitTags md stack (t # ts) =
     (case Analyzer_VisitTag md stack t of
        Ok t' \<Rightarrow>
          (case Analyzer_VisitTags md stack ts of
             Ok ts' \<Rightarrow> Ok (t' # ts')
           | Err err \<Rightarrow> Err err
           | Aborted \<Rightarrow> Aborted)
      | Err err \<Rightarrow> Err err
      | Aborted \<Rightarrow> Aborted)"

definition Analyze :: "nat \<Rightarrow> Format \<Rightarrow> (ISTError, Format) Result" where
  "Analyze md format = Analyzer_Visit md [] format"




section \<open>StructuralTagGrammarConverter\<close>

text \<open>
  The body of the rule whose id a lowering step returns, read back from the builder.
\<close>

definition lowered_body :: "(ISTError, nat \<times> GrammarBuilder) Result \<Rightarrow> GrammarExpr option" where
  "lowered_body r =
     (case r of
        Ok (rule_id, b) \<Rightarrow> (if rule_id < length b then body_expr_id (b ! rule_id) else None)
      | Err err \<Rightarrow> None
      | Aborted \<Rightarrow> None)"

text \<open>
  \<open>VisitSub(const AnyTextFormat&)\<close> of the implementation that matches
  \<open>structural_tag.h\<close> (the \<open>excludes\<close> field).  The debug check on the filtered end
  strings exists only in debug builds: \<open>debug\<close> says whether it is compiled in.
\<close>

definition Converter_VisitSub_AnyTextFormat ::
  "bool \<Rightarrow> GrammarBuilder \<Rightarrow> string list \<Rightarrow> string list \<Rightarrow> (ISTError, nat \<times> GrammarBuilder) Result" where
  "Converter_VisitSub_AnyTextFormat debug b excludes detected_end_strs =
     (if detected_end_strs \<noteq> [] then
        (let non_empty_ends = filter (\<lambda>s. s \<noteq> []) detected_end_strs in
         if debug \<and> non_empty_ends = [] then Aborted
         else Ok (AddRuleWithHint b ''any_text''
                    (TagDispatchExpr \<lparr>tag_rule_pairs = [], stop_eos = False,
                       stop_str = non_empty_ends, loop_after_dispatch = False,
                       excluded_str = excludes\<rparr>)))
      else if length excludes > 0 then
        Ok (AddRuleWithHint b ''any_text''
              (TagDispatchExpr \<lparr>tag_rule_pairs = [], stop_eos = True, stop_str = [],
                 loop_after_dispatch = False, excluded_str = excludes\<rparr>))
      else
        Ok (AddRuleWithHint b ''any_text''
              (Choices [Sequence [CharacterClassStar False [(0, 0x10FFFF)]]])))"

subsection \<open>Fingerprint cache\<close>

text \<open>
  The implementation with \<open>FormatFingerprinter\<close> memoizes \<open>Visit\<close> in
  \<open>fingerprint_cache_\<close>, a map from the 64-bit FNV-1a hash of a fingerprint to the list
  of (fingerprint, rule id) pairs with that hash.  The fingerprint function \<open>Compute\<close>
  (a canonical JSON serialization, built with library code that is not among the sources)
  and the dispatch to \<open>VisitSub\<close> are parameters; \<open>VisitSub\<close> threads the converter
  state, since lowering the children goes through \<open>Visit\<close> again.
\<close>

definition FnvaHash :: "string \<Rightarrow> 64 word" where
  "FnvaHash s =
     fold (\<lambda>c hash. (hash XOR of_nat (of_char c)) * 1099511628211) s 14695981039346656037"

record Converter =
  grammar_builder :: GrammarBuilder
  fingerprint_cache :: "64 word \<Rightarrow> (string \<times> int) list"

definition Converter_Visit ::
  "('f \<Rightarrow> string) \<Rightarrow> ('f \<Rightarrow> Converter \<Rightarrow> (ISTError, int) Result \<times> Converter) \<Rightarrow>
   'f \<Rightarrow> Converter \<Rightarrow> (ISTError, int) Result \<times> Converter" where
  "Converter_Visit Compute VisitSub format st =
     (let fingerprint = Compute format;
          hash = FnvaHash fingerprint
      in case map_of (fingerprint_cache st hash) fingerprint of
           Some rule_id \<Rightarrow> (Ok rule_id, st)
         | None \<Rightarrow>
             (case VisitSub format st of
                (Ok rule_id, st') \<Rightarrow>
                  (Ok rule_id,
                   st'\<lparr>fingerprint_cache :=
                         (fingerprint_cache st')
                           (hash := fingerprint_cache st' hash @ [(fingerprint, rule_id)])\<rparr>)
              | (Err err, st') \<Rightarrow> (Err err, st')
              | (Aborted, st') \<Rightarrow> (Aborted, st')))"

text \<open>The rule id the cache holds for a fingerprint, if any.\<close>

definition cached_rule_id :: "Converter \<Rightarrow> string \<Rightarrow> int option" where
  "cached_rule_id st fingerprint = map_of (fingerprint_cache st (FnvaHash fingerprint)) fingerprint"

text \<open>The cache of \<open>st2\<close> extends that of \<open>st1\<close>: entries are only ever appended.\<close>

definition cache_extends :: "Converter \<Rightarrow> Converter \<Rightarrow> bool" where
  "cache_extends st1 st2 = (\<forall>h. prefix (fingerprint_cache st1 h) (fingerprint_cache st2 h))"

section \<open>JSON values\<close>

text \<open>
  A parsed JSON value as the JSON library hands it over: a number is a 64-bit integer or a
  double.  Doubles are an abstract linearly ordered type \<open>'d\<close> (JSON has no NaN).  An
  object is a key-value list, looked up with \<open>map_of\<close>.
\<close>

datatype 'd json =
    JNull
  | JBool bool
  | JInt int
  | JDouble 'd
  | JString string
  | JArray "'d json list"
  | JObject "(string \<times> 'd json) list"

fun is_object :: "'d json \<Rightarrow> bool" where
  "is_object (JObject obj) = True"
| "is_object v = False"

section \<open>StructuralTagParser and the public entry point\<close>

text \<open>
  \<open>json_parse\<close> is the JSON library's parser: it returns an error message (empty on
  success) and the value.  \<open>ParseFormat\<close>, the converter and the normalizer are
  parameters here; what they do does not decide which kind of error a malformed top level
  gives.
\<close>

definition ParseStructuralTag ::
  "('d json \<Rightarrow> (ISTError, Format) Result) \<Rightarrow> 'd json \<Rightarrow> (ISTError, Format) Result" where
  "ParseStructuralTag ParseFormat v =
     (case v of
        JObject obj \<Rightarrow>
          (if (case map_of obj ''type'' of
                 Some t \<Rightarrow> t \<noteq> JString ''structural_tag''
               | None \<Rightarrow> False)
           then Err ''Structural tag's type must be a string \"structural_tag\"''
           else (case map_of obj ''format'' of
                   None \<Rightarrow> Err ''Structural tag must have a format field''
                 | Some f \<Rightarrow> ParseFormat f))
      | _ \<Rightarrow> Err ''Structural tag must be an object'')"

definition FromJSON ::
  "(string \<Rightarrow> string \<times> 'd json) \<Rightarrow> ('d json \<Rightarrow> (ISTError, Format) Result) \<Rightarrow> string \<Rightarrow>
   (StructuralTagError, Format) Result" where
  "FromJSON json_parse ParseFormat js =
     (let (err, v) = json_parse js in
      if err \<noteq> [] then Err (InvalidJSONError (''Failed to parse JSON: '' @ err))
      else (case ParseStructuralTag ParseFormat v of
              Ok structural_tag \<Rightarrow> Ok structural_tag
            | Err e \<Rightarrow> Err (InvalidStructuralTagError e)
            | Aborted \<Rightarrow> Aborted))"

definition StructuralTagToGrammar ::
  "(string \<Rightarrow> string \<times> 'd json) \<Rightarrow> ('d json \<Rightarrow> (ISTError, Format) Result) \<Rightarrow> nat \<Rightarrow>
   (Format \<Rightarrow> (ISTError, 'g) Result) \<Rightarrow> ('g \<Rightarrow> 'g option) \<Rightarrow> string \<Rightarrow>
   (StructuralTagError, 'g) Result" where
  "StructuralTagToGrammar json_parse ParseFormat md Convert Normalize structural_tag_json =
     (case FromJSON json_parse ParseFormat structural_tag_json of
        Err e \<Rightarrow> Err e
      | Aborted \<Rightarrow> Aborted
      | Ok structural_tag \<Rightarrow>
          (case Analyze md structural_tag of
             Err e \<Rightarrow> Err (InvalidStructuralTagError e)
           | Aborted \<Rightarrow> Aborted
           | Ok analysed \<Rightarrow>
               (case Convert analysed of
                  Err e \<Rightarrow> Err (InvalidStructuralTagError e)
                | Aborted \<Rightarrow> Aborted
                | Ok g \<Rightarrow> (case Normalize g of None \<Rightarrow> Aborted | Some g' \<Rightarrow> Ok g'))))"

section \<open>SchemaParser\<close>

text \<open>
  The JSON-schema parser.  A \<open>SchemaError\<close> is an error kind with a message; a failed
  \<open>XGRAMMAR_CHECK\<close> is \<open>Aborted\<close>.  64-bit integers are \<open>int\<close>: the two places where
  the source adds or subtracts one are guarded against the extreme values, so nothing
  wraps for values in range.  What the source does with doubles (conversion from a 64-bit
  integer, the test for a whole number, the cast back, the serialization of a leaf value)
  is the record \<open>double_ops\<close>, a parameter.  \<open>ParseInteger\<close> and \<open>ParseNumber\<close> are
  translated in full and so is \<open>ParseEnum\<close>; the parsers of the other schema kinds (which recurse into
  \<open>Parse\<close> and may fill the cache) are the parameter \<open>ParseOther\<close>, called with the
  name of the parser.  The keys of an object are kept sorted by the JSON library, so the
  sort in \<open>ComputeCacheKey\<close> leaves the order as it is.
\<close>

datatype SchemaErrorType = kInvalidSchema | kUnsatisfiableSchema

type_synonym SchemaError = "SchemaErrorType \<times> string"

record 'd double_ops =
  to_double :: "int \<Rightarrow> 'd"
  is_whole :: "'d \<Rightarrow> bool"
  to_int64 :: "'d \<Rightarrow> int"
  serialize :: "'d json \<Rightarrow> string"

record IntegerSpec =
  minimum :: "int option"
  maximum :: "int option"
  exclusive_minimum :: "int option"
  exclusive_maximum :: "int option"

record 'd NumberSpec =
  number_minimum :: "'d option"
  number_maximum :: "'d option"
  number_exclusive_minimum :: "'d option"
  number_exclusive_maximum :: "'d option"

datatype ('d, 'o) SchemaSpecVariant =
    IntegerSpecV IntegerSpec
  | NumberSpecV "'d NumberSpec"
  | EnumSpecV "string list"
  | AnySpecV
  | OtherSpecV 'o

record ('d, 'o) SchemaSpec =
  spec :: "('d, 'o) SchemaSpecVariant"
  cache_key :: string
  rule_name_hint :: string

definition Make :: "('d, 'o) SchemaSpecVariant \<Rightarrow> string \<Rightarrow> string \<Rightarrow> ('d, 'o) SchemaSpec" where
  "Make spec_value key hint = \<lparr>spec = spec_value, cache_key = key, rule_name_hint = hint\<rparr>"

definition INT64_MAX :: int where "INT64_MAX = 9223372036854775807"
definition INT64_MIN :: int where "INT64_MIN = - 9223372036854775808"

definition bind :: "('e, 'a) Result \<Rightarrow> ('a \<Rightarrow> ('e, 'b) Result) \<Rightarrow> ('e, 'b) Result" where
  "bind r f = (case r of Ok x \<Rightarrow> f x | Err e \<Rightarrow> Err e | Aborted \<Rightarrow> Aborted)"

definition checkAndConvertIntegerBound ::
  "'d::linorder double_ops \<Rightarrow> 'd json \<Rightarrow> (SchemaError, int) Result" where
  "checkAndConvertIntegerBound ops v =
     (case v of
        JInt i \<Rightarrow> Ok i
      | JDouble val \<Rightarrow>
          if \<not> is_whole ops val
          then Err (kInvalidSchema, ''Integer constraint must be a whole number'')
          else if val = to_double ops (- 9223372036854776000) then Aborted
          else if val = to_double ops 9223372036854776000 then Aborted
          else if \<not> val \<le> to_double ops INT64_MAX then Aborted
          else if \<not> val \<ge> to_double ops INT64_MIN then Aborted
          else Ok (to_int64 ops val)
      | _ \<Rightarrow> Err (kInvalidSchema, ''Value must be a number''))"

definition integer_bound ::
  "'d::linorder double_ops \<Rightarrow> (string \<times> 'd json) list \<Rightarrow> string \<Rightarrow> (SchemaError, int option) Result" where
  "integer_bound ops schema key =
     (case map_of schema key of
        None \<Rightarrow> Ok None
      | Some v \<Rightarrow> bind (checkAndConvertIntegerBound ops v) (\<lambda>x. Ok (Some x)))"

definition ParseInteger ::
  "'d::linorder double_ops \<Rightarrow> (string \<times> 'd json) list \<Rightarrow> (SchemaError, IntegerSpec) Result" where
  "ParseInteger ops schema =
     bind (integer_bound ops schema ''minimum'') (\<lambda>mn.
     bind (integer_bound ops schema ''maximum'') (\<lambda>mx.
     bind (integer_bound ops schema ''exclusiveMinimum'') (\<lambda>emn.
       if emn = Some INT64_MAX
       then Err (kUnsatisfiableSchema, ''exclusiveMinimum would cause integer overflow'')
       else
     bind (integer_bound ops schema ''exclusiveMaximum'') (\<lambda>emx.
       if emx = Some INT64_MIN
       then Err (kUnsatisfiableSchema, ''exclusiveMaximum would cause integer underflow'')
       else
         (let effective_min0 = (case mn of None \<Rightarrow> INT64_MIN | Some m \<Rightarrow> m);
              effective_max0 = (case mx of None \<Rightarrow> INT64_MAX | Some m \<Rightarrow> m);
              effective_min = (case emn of None \<Rightarrow> effective_min0 | Some e \<Rightarrow> max effective_min0 (e + 1));
              effective_max = (case emx of None \<Rightarrow> effective_max0 | Some e \<Rightarrow> min effective_max0 (e - 1))
          in if effective_min > effective_max
             then Err (kUnsatisfiableSchema, ''Invalid range: minimum greater than maximum'')
             else Ok \<lparr>minimum = mn, maximum = mx, exclusive_minimum = emn,
                      exclusive_maximum = emx\<rparr>)))))"

definition getDouble :: "'d::linorder double_ops \<Rightarrow> 'd json \<Rightarrow> (SchemaError, 'd) Result" where
  "getDouble ops v =
     (case v of
        JInt i \<Rightarrow> Ok (to_double ops i)
      | JDouble d \<Rightarrow> Ok d
      | _ \<Rightarrow> Err (kInvalidSchema, ''Value must be a number''))"

definition number_bound ::
  "'d::linorder double_ops \<Rightarrow> (string \<times> 'd json) list \<Rightarrow> string \<Rightarrow> (SchemaError, 'd option) Result" where
  "number_bound ops schema key =
     (case map_of schema key of
        None \<Rightarrow> Ok None
      | Some v \<Rightarrow> bind (getDouble ops v) (\<lambda>x. Ok (Some x)))"

text \<open>
  The effective bounds of a number start at minus and plus infinity; \<open>None\<close> is the
  infinity here.
\<close>

definition effective_min_number :: "'d::linorder option \<Rightarrow> 'd option \<Rightarrow> 'd option" where
  "effective_min_number mn emn =
     (case emn of
        None \<Rightarrow> mn
      | Some e \<Rightarrow> (case mn of None \<Rightarrow> Some e | Some m \<Rightarrow> Some (max m e)))"

definition effective_max_number :: "'d::linorder option \<Rightarrow> 'd option \<Rightarrow> 'd option" where
  "effective_max_number mx emx =
     (case emx of
        None \<Rightarrow> mx
      | Some e \<Rightarrow> (case mx of None \<Rightarrow> Some e | Some m \<Rightarrow> Some (min m e)))"

definition ParseNumber ::
  "'d::linorder double_ops \<Rightarrow> (string \<times> 'd json) list \<Rightarrow> (SchemaError, 'd NumberSpec) Result" where
  "ParseNumber ops schema =
     bind (number_bound ops schema ''minimum'') (\<lambda>mn.
     bind (number_bound ops schema ''maximum'') (\<lambda>mx.
     bind (number_bound ops schema ''exclusiveMinimum'') (\<lambda>emn.
     bind (number_bound ops schema ''exclusiveMaximum'') (\<lambda>emx.
       if (case (effective_min_number mn emn, effective_max_number mx emx) of
             (Some lo, Some hi) \<Rightarrow> lo > hi
           | _ \<Rightarrow> False)
       then Err (kUnsatisfiableSchema, ''Invalid range: minimum greater than maximum'')
       else Ok \<lparr>number_minimum = mn, number_maximum = mx, number_exclusive_minimum = emn,
                number_exclusive_maximum = emx\<rparr>))))"

definition ParseEnum ::
  "'d double_ops \<Rightarrow> (string \<times> 'd json) list \<Rightarrow> (SchemaError, string list) Result" where
  "ParseEnum ops schema =
     (case map_of schema ''enum'' of
        Some (JArray values) \<Rightarrow> Ok (map (serialize ops) values)
      | _ \<Rightarrow> Err (kInvalidSchema, ''enum must be an array''))"

definition kSkippedKeys :: "string list" where
  "kSkippedKeys = [''title'', ''default'', ''description'', ''examples'', ''deprecated'',
     ''readOnly'', ''writeOnly'', ''$comment'', ''$schema'']"

fun join_comma :: "string list \<Rightarrow> string" where
  "join_comma [] = []"
| "join_comma [x] = x"
| "join_comma (x # y # zs) = x @ '','' @ join_comma (y # zs)"

fun ComputeCacheKey :: "'d double_ops \<Rightarrow> 'd json \<Rightarrow> string"
and ComputeCacheKey_items :: "'d double_ops \<Rightarrow> 'd json list \<Rightarrow> string list"
and ComputeCacheKey_kvs :: "'d double_ops \<Rightarrow> (string \<times> 'd json) list \<Rightarrow> string list" where
  "ComputeCacheKey ops (JObject kvs) = ''{'' @ join_comma (ComputeCacheKey_kvs ops kvs) @ ''}''"
| "ComputeCacheKey ops (JArray items) = ''['' @ join_comma (ComputeCacheKey_items ops items) @ '']''"
| "ComputeCacheKey ops JNull = serialize ops JNull"
| "ComputeCacheKey ops (JBool b) = serialize ops (JBool b)"
| "ComputeCacheKey ops (JInt i) = serialize ops (JInt i)"
| "ComputeCacheKey ops (JDouble d) = serialize ops (JDouble d)"
| "ComputeCacheKey ops (JString s) = serialize ops (JString s)"
| "ComputeCacheKey_items ops [] = []"
| "ComputeCacheKey_items ops (item # items) = ComputeCacheKey ops item # ComputeCacheKey_items ops items"
| "ComputeCacheKey_kvs ops [] = []"
| "ComputeCacheKey_kvs ops ((key, v) # kvs) =
     (if key \<in> set kSkippedKeys then ComputeCacheKey_kvs ops kvs
      else (''\"'' @ key @ ''\":'' @ ComputeCacheKey ops v) # ComputeCacheKey_kvs ops kvs)"

type_synonym ('d, 'o) schema_cache = "string \<Rightarrow> ('d, 'o) SchemaSpec option"

definition finish ::
  "string \<Rightarrow> string \<Rightarrow> ('d, 'o) schema_cache \<Rightarrow> (SchemaError, ('d, 'o) SchemaSpecVariant) Result \<Rightarrow>
   (SchemaError, ('d, 'o) SchemaSpec) Result \<times> ('d, 'o) schema_cache" where
  "finish key hint cache r =
     (case r of
        Ok v \<Rightarrow> (Ok (Make v key hint), cache(key \<mapsto> Make v key hint))
      | Err e \<Rightarrow> (Err e, cache)
      | Aborted \<Rightarrow> (Aborted, cache))"

definition has_key :: "(string \<times> 'a) list \<Rightarrow> string \<Rightarrow> bool" where
  "has_key obj k = (map_of obj k \<noteq> None)"

definition Parse ::
  "'d::linorder double_ops \<Rightarrow>
   (string \<Rightarrow> (string \<times> 'd json) list \<Rightarrow> string \<Rightarrow> ('d, 'o) schema_cache \<Rightarrow>
      (SchemaError, 'o) Result \<times> ('d, 'o) schema_cache) \<Rightarrow>
   'd json \<Rightarrow> string \<Rightarrow> string option \<Rightarrow> ('d, 'o) schema_cache \<Rightarrow>
   (SchemaError, ('d, 'o) SchemaSpec) Result \<times> ('d, 'o) schema_cache" where
  "Parse ops ParseOther schema hint default_type schema_cache =
     (let key = ComputeCacheKey ops schema;
          other = (\<lambda>which obj.
            (case ParseOther which obj hint schema_cache of
               (r, cache') \<Rightarrow> finish key hint cache' (bind r (\<lambda>x. Ok (OtherSpecV x)))))
      in case schema_cache key of
           Some cached \<Rightarrow> (Ok cached, schema_cache)
         | None \<Rightarrow>
             (case schema of
                JBool b \<Rightarrow>
                  if \<not> b
                  then (Err (kUnsatisfiableSchema, ''Schema 'false' cannot accept any value''),
                        schema_cache)
                  else finish key hint schema_cache (Ok AnySpecV)
              | JObject schema_obj \<Rightarrow>
                  if has_key schema_obj ''$ref'' then other ''ParseRef'' schema_obj
                  else if has_key schema_obj ''const'' then other ''ParseConst'' schema_obj
                  else if has_key schema_obj ''enum'' then
                    finish key hint schema_cache
                      (bind (ParseEnum ops schema_obj) (\<lambda>x. Ok (EnumSpecV x)))
                  else if has_key schema_obj ''anyOf'' \<or> has_key schema_obj ''oneOf''
                    then other ''ParseAnyOf'' schema_obj
                  else if has_key schema_obj ''allOf'' then other ''ParseAllOf'' schema_obj
                  else if has_key schema_obj ''type'' \<or> default_type \<noteq> None then
                    (case map_of schema_obj ''type'' of
                       Some (JArray ts) \<Rightarrow> other ''ParseTypeArray'' schema_obj
                     | ty \<Rightarrow>
                         (case (case ty of
                                  Some (JString s) \<Rightarrow> Some s
                                | Some other_value \<Rightarrow> None
                                | None \<Rightarrow> default_type) of
                            None \<Rightarrow> (Err (kInvalidSchema, ''Type should be a string''), schema_cache)
                          | Some type \<Rightarrow>
                              if type = ''integer'' then
                                finish key hint schema_cache
                                  (bind (ParseInteger ops schema_obj) (\<lambda>x. Ok (IntegerSpecV x)))
                              else if type = ''number'' then
                                finish key hint schema_cache
                                  (bind (ParseNumber ops schema_obj) (\<lambda>x. Ok (NumberSpecV x)))
                              else if type = ''string'' then other ''ParseString'' schema_obj
                              else if type = ''boolean'' then other ''ParseBoolean'' schema_obj
                              else if type = ''null'' then other ''ParseNull'' schema_obj
                              else if type = ''array'' then other ''ParseArray'' schema_obj
                              else if type = ''object'' then other ''ParseObject'' schema_obj
                              else (Err (kInvalidSchema, ''Unsupported type \"'' @ type @ ''\"''),
                                    schema_cache)))
                  else if has_key schema_obj ''properties'' \<or>
                          has_key schema_obj ''additionalProperties'' \<or>
                          has_key schema_obj ''unevaluatedProperties''
                    then other ''ParseObject'' schema_obj
                  else if has_key schema_obj ''items'' \<or> has_key schema_obj ''prefixItems'' \<or>
                          has_key schema_obj ''unevaluatedItems''
                    then other ''ParseArray'' schema_obj
                  else finish key hint schema_cache (Ok AnySpecV)
              | _ \<Rightarrow>
                  (Err (kInvalidSchema,
                        ''Schema should be an object or bool, but got '' @ serialize ops schema),
                   schema_cache)))"

definition dispatches_on_type :: "(string \<times> 'd json) list \<Rightarrow> string \<Rightarrow> bool" where
  "dispatches_on_type obj ty =
     (\<not> has_key obj ''$ref'' \<and> \<not> has_key obj ''const'' \<and> \<not> has_key obj ''enum'' \<and>
      \<not> has_key obj ''anyOf'' \<and> \<not> has_key obj ''oneOf'' \<and> \<not> has_key obj ''allOf'' \<and>
      map_of obj ''type'' = Some (JString ty))"

text \<open>
  A bound that \<open>checkAndConvertIntegerBound\<close> turns into an integer: an integer, or a
  double that is whole and inside the 64-bit range.
\<close>

definition converts_or_absent :: "'d::linorder double_ops \<Rightarrow> 'd json option \<Rightarrow> bool" where
  "converts_or_absent ops v =
     (case v of
        None \<Rightarrow> True
      | Some w \<Rightarrow>
          (case checkAndConvertIntegerBound ops w of
             Ok x \<Rightarrow> True | Err e \<Rightarrow> False | Aborted \<Rightarrow> False))"

definition number_or_absent :: "'d json option \<Rightarrow> bool" where
  "number_or_absent v =
     (case v of None \<Rightarrow> True | Some (JInt i) \<Rightarrow> True | Some (JDouble d) \<Rightarrow> True | Some w \<Rightarrow> False)"

definition error_kind :: "(SchemaError, 'a) Result \<Rightarrow> SchemaErrorType option" where
  "error_kind r = (case r of Err (kind, msg) \<Rightarrow> Some kind | Ok x \<Rightarrow> None | Aborted \<Rightarrow> None)"

section \<open>Token-mask computer\<close>

text \<open>
  \<open>GrammarMatcherForTokenMaskCache\<close> drives an Earley parser over the sorted vocabulary.
  The parser class is not among the sources; it is modelled from the spec as a stack of
  frames of an abstract type \<open>'s\<close>, newest first, with three operations given as a
  record: \<open>Advance\<close> computes the frame after a byte from the newest frame (\<open>None\<close>:
  the byte is impossible, nothing is pushed), \<open>IsCompleted\<close> reads the newest frame,
  \<open>PushStateAndExpand\<close> gives the frame of a look-ahead expression.  \<open>PopLastStates\<close>
  drops frames.  A token is its list of bytes; indices into the sorted vocabulary are
  \<open>nat\<close>.

  The local variables of the token loop (\<open>prev_token\<close>, \<open>prev_matched_size\<close>,
  \<open>last_rejected_range\<close>) live in \<open>MaskState\<close> next to the temporary members.  What is
  computed before the loop and never changes in it (the intervals of tokens whose first
  byte is possible, \<open>fill_reject_indices\<close>, the speculative mask, the bitset of a tag
  dispatch rule) is given in \<open>MaskContext\<close>, with the tokenizer's tables and the rule of
  the initial state.  A read out of range, a failed check, and a subtree range that does
  not move the loop forward are \<open>None\<close>.
\<close>

type_synonym token = "nat list"

record 's EarleyParser =
  Advance :: "'s \<Rightarrow> nat \<Rightarrow> 's option"
  IsCompleted :: "'s \<Rightarrow> bool"
  PushStateAndExpand :: "GrammarExpr \<Rightarrow> 's"

definition PopLastStates :: "nat \<Rightarrow> 's list \<Rightarrow> 's list" where
  "PopLastStates cnt stack = drop cnt stack"

definition advance_top :: "'s EarleyParser \<Rightarrow> 's list \<Rightarrow> nat \<Rightarrow> 's list option" where
  "advance_top p stack ch =
     (case stack of
        [] \<Rightarrow> None
      | cur # rest \<Rightarrow> (case Advance p cur ch of None \<Rightarrow> None | Some s \<Rightarrow> Some (s # cur # rest)))"

definition completed_top :: "'s EarleyParser \<Rightarrow> 's list \<Rightarrow> bool" where
  "completed_top p stack = (case stack of [] \<Rightarrow> False | cur # rest \<Rightarrow> IsCompleted p cur)"

function lookahead_scan ::
  "'s EarleyParser \<Rightarrow> token \<Rightarrow> nat \<Rightarrow> 's list \<Rightarrow> nat \<Rightarrow> int \<Rightarrow> bool \<times> 's list \<times> int" where
  "lookahead_scan p token i stack pos last_accept_pos =
     (if pos < length token then
        (case advance_top p stack (token ! pos) of
           None \<Rightarrow> (False, stack, last_accept_pos)
         | Some stack' \<Rightarrow>
             if completed_top p stack' then (True, stack', int pos)
             else lookahead_scan p token i stack' (Suc pos) (int pos))
      else (False, stack, last_accept_pos))"
  by pat_completeness auto
termination
  by (relation "measure (\<lambda>(p, token, i, stack, pos, last). length token - pos)") auto

declare lookahead_scan.simps [simp del]

fun lookahead_positions ::
  "'s EarleyParser \<Rightarrow> token \<Rightarrow> bool list \<Rightarrow> nat list \<Rightarrow> 's list \<Rightarrow> (bool \<times> bool) \<times> 's list" where
  "lookahead_positions p token can_reach_end_stack [] stack =
     ((False, False), PopLastStates 1 stack)"
| "lookahead_positions p token can_reach_end_stack (i # rest) stack =
     (if \<not> can_reach_end_stack ! i then
        lookahead_positions p token can_reach_end_stack rest stack
      else
        (case lookahead_scan p token i stack i (int i - 1) of
           (completed, stack', last_accept_pos) \<Rightarrow>
             if completed then
               ((True, True), PopLastStates (nat (last_accept_pos - int i + 2)) stack')
             else if last_accept_pos = int (length token) - 1 then
               ((True, False), PopLastStates (nat (last_accept_pos - int i + 2)) stack')
             else
               lookahead_positions p token can_reach_end_stack rest
                 (PopLastStates (nat (last_accept_pos - int i + 1)) stack')))"

definition IsTokenPassLookaheadAssertion ::
  "'s EarleyParser \<Rightarrow> GrammarExpr option \<Rightarrow> token \<Rightarrow> bool list \<Rightarrow> 's list \<Rightarrow>
   (bool \<times> bool) \<times> 's list" where
  "IsTokenPassLookaheadAssertion p lookahead token can_reach_end_stack stack =
     (case lookahead of
        None \<Rightarrow> ((True, True), stack)
      | Some lookahead_state \<Rightarrow>
        (let stack1 = PushStateAndExpand p lookahead_state # stack in
         if completed_top p stack1 then ((True, True), PopLastStates 1 stack1)
         else lookahead_positions p token can_reach_end_stack
                (rev [0..<length can_reach_end_stack]) stack1))"

record 's MaskState =
  parser_stack :: "'s list"
  tmp_accepted_indices :: "nat list"
  tmp_rejected_indices :: "nat list"
  tmp_uncertain_indices :: "nat list"
  tmp_rejected_by_lookahead_indices :: "nat list"
  tmp_accepted_by_lookahead_indices :: "nat list"
  tmp_can_reach_end_stack :: "bool list"
  tmp_can_reach_end_prefix_or_stack :: "bool list"
  prev_token :: "token option"
  prev_matched_size :: nat
  last_rejected_range :: nat

record 's MaskContext =
  parser :: "'s EarleyParser"
  init_rule :: Rule
  sorted_decoded_vocab :: "(int \<times> token) list"
  subtree_nodes_range :: "nat list"
  fill_reject_indices :: bool
  speculative_calculation :: bool
  speculative_mask :: "nat \<Rightarrow> bool"
  definite_accepted_bitset :: "(nat \<Rightarrow> bool) option"
  USE_BITSET_THRESHOLD :: nat
  special_token_ids :: "int list"

fun lcp_len :: "token \<Rightarrow> token \<Rightarrow> nat" where
  "lcp_len (a # as) (b # bs) = (if a = b then Suc (lcp_len as bs) else 0)"
| "lcp_len as bs = 0"

function advance_rest :: "'s EarleyParser \<Rightarrow> token \<Rightarrow> nat \<Rightarrow> 's MaskState \<Rightarrow> bool \<times> 's MaskState" where
  "advance_rest p token j st =
     (if j < length token then
        (case advance_top p (parser_stack st) (token ! j) of
           None \<Rightarrow> (False, st)
         | Some stack' \<Rightarrow>
             advance_rest p token (Suc j)
               (st\<lparr>parser_stack := stack',
                   tmp_can_reach_end_stack :=
                     tmp_can_reach_end_stack st @ [completed_top p stack'],
                   tmp_can_reach_end_prefix_or_stack :=
                     tmp_can_reach_end_prefix_or_stack st @
                       [completed_top p stack' \<or> last (tmp_can_reach_end_prefix_or_stack st)],
                   prev_matched_size := Suc j\<rparr>))
      else (True, st))"
  by pat_completeness auto
termination
  by (relation "measure (\<lambda>(p, token, j, st). length token - j)") auto

declare advance_rest.simps [simp del]

definition erase_last :: "nat \<Rightarrow> 'a list \<Rightarrow> 'a list" where
  "erase_last n xs = take (length xs - n) xs"

definition match_token :: "'s EarleyParser \<Rightarrow> token \<Rightarrow> 's MaskState \<Rightarrow> bool \<times> 's MaskState" where
  "match_token p token st =
     (let (accepted, st1) =
            (case prev_token st of
               None \<Rightarrow> (True, st)
             | Some prev \<Rightarrow>
                 (let lcp = lcp_len token prev in
                  if lcp > prev_matched_size st then (False, st)
                  else if lcp < prev_matched_size st then
                    (True,
                     st\<lparr>parser_stack := PopLastStates (prev_matched_size st - lcp) (parser_stack st),
                        tmp_can_reach_end_stack :=
                          erase_last (prev_matched_size st - lcp) (tmp_can_reach_end_stack st),
                        tmp_can_reach_end_prefix_or_stack :=
                          erase_last (prev_matched_size st - lcp)
                            (tmp_can_reach_end_prefix_or_stack st),
                        prev_matched_size := lcp\<rparr>)
                  else (True, st)));
          st2 = st1\<lparr>prev_token := Some token\<rparr>
      in if accepted then advance_rest p token (prev_matched_size st2) st2 else (False, st2))"

definition speculative_accept :: "'s MaskContext \<Rightarrow> token \<Rightarrow> nat \<Rightarrow> bool" where
  "speculative_accept ctx token i =
     (case definite_accepted_bitset ctx of
        Some bitset \<Rightarrow> token = [] \<or> (speculative_mask ctx (hd token) \<and> bitset i)
      | None \<Rightarrow> list_all (\<lambda>ch. ch < 128 \<and> speculative_mask ctx ch) token)"

text \<open>
  One pass of the body of the token loop of \<open>GetTokenMaskWithFirstCharacterCheck\<close>,
  for the index \<open>i\<close>; returns the state and the next index.
\<close>

definition process_token :: "'s MaskContext \<Rightarrow> bool \<Rightarrow> 's MaskState \<Rightarrow> nat \<Rightarrow> 's MaskState \<times> nat" where
  "process_token ctx is_root_rule st i =
     (if i < last_rejected_range st then
        ((if fill_reject_indices ctx
          then st\<lparr>tmp_rejected_indices := tmp_rejected_indices st @ [i]\<rparr> else st), Suc i)
      else
        (let token = snd (sorted_decoded_vocab ctx ! i) in
         if speculative_calculation ctx \<and> speculative_accept ctx token i then
           (st\<lparr>tmp_accepted_indices := tmp_accepted_indices st @ [i]\<rparr>, Suc i)
         else
           (let (accepted, st1) = match_token (parser ctx) token st;
                can_reach_end = last (tmp_can_reach_end_prefix_or_stack st1)
            in if accepted then
                 (st1\<lparr>tmp_accepted_indices := tmp_accepted_indices st1 @ [i]\<rparr>, Suc i)
               else if can_reach_end \<and> prev_matched_size st1 > 0 then
                 (let ((lookahead_accepted, lookahead_completed), stack') =
                        IsTokenPassLookaheadAssertion (parser ctx)
                          (lookahead_assertion_id (init_rule ctx)) token
                          (tmp_can_reach_end_stack st1) (parser_stack st1);
                      st2 = st1\<lparr>parser_stack := stack'\<rparr>
                  in if \<not> is_root_rule \<and> lookahead_accepted then
                       (if lookahead_completed \<or> \<not> is_exact_lookahead (init_rule ctx) then
                          (st2\<lparr>tmp_uncertain_indices := tmp_uncertain_indices st2 @ [i]\<rparr>, Suc i)
                        else
                          (st2\<lparr>tmp_accepted_indices := tmp_accepted_indices st2 @ [i],
                               tmp_accepted_by_lookahead_indices :=
                                 tmp_accepted_by_lookahead_indices st2 @ [i]\<rparr>, Suc i))
                     else
                       (st2\<lparr>tmp_rejected_indices :=
                               tmp_rejected_indices st2 @ [i..<subtree_nodes_range ctx ! i],
                             tmp_rejected_by_lookahead_indices :=
                               tmp_rejected_by_lookahead_indices st2 @
                                 [i..<subtree_nodes_range ctx ! i]\<rparr>,
                        subtree_nodes_range ctx ! i))
               else
                 (st1\<lparr>tmp_rejected_indices := tmp_rejected_indices st1 @ [i],
                      last_rejected_range := subtree_nodes_range ctx ! i\<rparr>, Suc i))))"

function interval_loop ::
  "'s MaskContext \<Rightarrow> bool \<Rightarrow> 's MaskState \<Rightarrow> nat \<Rightarrow> nat \<Rightarrow> 's MaskState option" where
  "interval_loop ctx is_root_rule st i interval_end =
     (if i < interval_end then
        (if length (sorted_decoded_vocab ctx) \<le> i \<or> length (subtree_nodes_range ctx) \<le> i
         then None
         else (case process_token ctx is_root_rule st i of
                 (st', next) \<Rightarrow>
                   if next \<le> i then None
                   else interval_loop ctx is_root_rule st' next interval_end))
      else Some st)"
  by pat_completeness auto
termination
  by (relation "measure (\<lambda>(ctx, is_root_rule, st, i, interval_end). interval_end - i)") auto

declare interval_loop.simps [simp del]

fun intervals_loop ::
  "'s MaskContext \<Rightarrow> bool \<Rightarrow> 's MaskState \<Rightarrow> (nat \<times> nat) list \<Rightarrow> 's MaskState option" where
  "intervals_loop ctx is_root_rule st [] = Some st"
| "intervals_loop ctx is_root_rule st [interval] =
     interval_loop ctx is_root_rule st (fst interval) (snd interval)"
| "intervals_loop ctx is_root_rule st (interval # next_interval # rest) =
     (case interval_loop ctx is_root_rule st (fst interval) (snd interval) of
        None \<Rightarrow> None
      | Some st' \<Rightarrow>
          intervals_loop ctx is_root_rule
            (if fill_reject_indices ctx
             then st'\<lparr>tmp_rejected_indices :=
                        tmp_rejected_indices st' @ [snd interval..<fst next_interval]\<rparr>
             else st')
            (next_interval # rest))"

definition GetTokenMaskWithFirstCharacterCheck ::
  "'s MaskContext \<Rightarrow> bool \<Rightarrow> (nat \<times> nat) list \<Rightarrow> 's MaskState \<Rightarrow> (bool \<times> 's MaskState) option" where
  "GetTokenMaskWithFirstCharacterCheck ctx is_root_rule possible_intervals st =
     (if possible_intervals = [] then None
      else
        (let st1 = (if fst (hd possible_intervals) \<noteq> 0 \<and> fill_reject_indices ctx
                    then st\<lparr>tmp_rejected_indices :=
                              tmp_rejected_indices st @ [0..<fst (hd possible_intervals)]\<rparr>
                    else st);
             st2 = st1\<lparr>prev_matched_size := 0, last_rejected_range := 0, prev_token := None\<rparr>
         in case intervals_loop ctx is_root_rule st2 possible_intervals of
              None \<Rightarrow> None
            | Some st3 \<Rightarrow>
                (let st4 = st3\<lparr>parser_stack :=
                                 PopLastStates (prev_matched_size st3) (parser_stack st3)\<rparr>;
                     st5 = (if snd (last possible_intervals) \<noteq> length (sorted_decoded_vocab ctx)
                               \<and> fill_reject_indices ctx
                            then st4\<lparr>tmp_rejected_indices :=
                                      tmp_rejected_indices st4 @
                                        [snd (last possible_intervals)..<
                                         length (sorted_decoded_vocab ctx)]\<rparr>
                            else st4)
                 in Some (fill_reject_indices ctx, st5))))"

text \<open>
  The adaptive token mask.  Its class is not among the sources; the two constructors are
  modelled from the spec (the storage is the bitset when the lists are too long, else the
  shorter list; the uncertain indices are kept as given).  A bitset over token ids is a
  predicate on ids.  In \<open>AdaptCacheWithLookahead\<close> the test against
  \<open>last_uncertain_range\<close> is left out: that variable stays 0.  The writes to the
  crossing cache at the end of \<open>GetAdaptiveTokenMask\<close> do not touch the mask that is
  returned and are left out; what the two probes of the cache return is given in
  \<open>CrossingCacheProbe\<close>.
\<close>

datatype StoreType = kAccepted | kRejected | kAcceptedBitset

record AdaptiveTokenMask =
  store_type :: StoreType
  accepted_indices :: "nat list"
  rejected_indices :: "nat list"
  accepted_bitset :: "int \<Rightarrow> bool"
  uncertain_indices :: "nat list"

definition token_id :: "'s MaskContext \<Rightarrow> nat \<Rightarrow> int" where
  "token_id ctx i = fst (sorted_decoded_vocab ctx ! i)"

definition bitset_of :: "'s MaskContext \<Rightarrow> nat list \<Rightarrow> int \<Rightarrow> bool" where
  "bitset_of ctx indices = (\<lambda>id. id \<in> set (map (token_id ctx) indices))"

definition AdaptiveTokenMask_with_rejected ::
  "'s MaskContext \<Rightarrow> nat list \<Rightarrow> nat list \<Rightarrow> nat list \<Rightarrow> AdaptiveTokenMask" where
  "AdaptiveTokenMask_with_rejected ctx accepted rejected uncertain =
     (if USE_BITSET_THRESHOLD ctx \<le> length accepted \<and> USE_BITSET_THRESHOLD ctx \<le> length rejected
      then \<lparr>store_type = kAcceptedBitset, accepted_indices = [], rejected_indices = [],
             accepted_bitset = bitset_of ctx accepted, uncertain_indices = uncertain\<rparr>
      else if length accepted < length rejected
      then \<lparr>store_type = kAccepted, accepted_indices = accepted, rejected_indices = [],
             accepted_bitset = (\<lambda>id. False), uncertain_indices = uncertain\<rparr>
      else \<lparr>store_type = kRejected, accepted_indices = [], rejected_indices = rejected,
             accepted_bitset = (\<lambda>id. False), uncertain_indices = uncertain\<rparr>)"

definition AdaptiveTokenMask_without_rejected ::
  "'s MaskContext \<Rightarrow> nat list \<Rightarrow> nat list \<Rightarrow> AdaptiveTokenMask" where
  "AdaptiveTokenMask_without_rejected ctx accepted uncertain =
     (if USE_BITSET_THRESHOLD ctx \<le> length accepted
      then \<lparr>store_type = kAcceptedBitset, accepted_indices = [], rejected_indices = [],
             accepted_bitset = bitset_of ctx accepted, uncertain_indices = uncertain\<rparr>
      else \<lparr>store_type = kAccepted, accepted_indices = accepted, rejected_indices = [],
             accepted_bitset = (\<lambda>id. False), uncertain_indices = uncertain\<rparr>)"

definition IntsetUnion :: "nat list \<Rightarrow> nat list \<Rightarrow> nat list" where
  "IntsetUnion lhs rhs = remdups_adj (sort (lhs @ rhs))"

text \<open>
  The body of the loop of \<open>AdaptCacheWithLookahead\<close> over the uncertain indices of the
  cached mask (non-root case).  \<open>None\<close>: the check that no such token is accepted failed.
\<close>

definition adapt_token ::
  "'s MaskContext \<Rightarrow> bool \<Rightarrow> 's MaskState \<Rightarrow> nat \<Rightarrow> 's MaskState option" where
  "adapt_token ctx is_root_rule st uncertain_index =
     (if uncertain_index < last_rejected_range st then
        Some (st\<lparr>tmp_rejected_indices := tmp_rejected_indices st @ [uncertain_index]\<rparr>)
      else
        (let token = snd (sorted_decoded_vocab ctx ! uncertain_index);
             (accepted, st1) = match_token (parser ctx) token st;
             can_reach_end = last (tmp_can_reach_end_prefix_or_stack st1)
         in if accepted then None
            else if can_reach_end \<and> prev_matched_size st1 > 0 then
              (let ((lookahead_accepted, lookahead_completed), stack') =
                     IsTokenPassLookaheadAssertion (parser ctx)
                       (lookahead_assertion_id (init_rule ctx)) token
                       (tmp_can_reach_end_stack st1) (parser_stack st1);
                   st2 = st1\<lparr>parser_stack := stack'\<rparr>
               in if \<not> is_root_rule \<and> lookahead_accepted then
                    (if lookahead_completed \<or> \<not> is_exact_lookahead (init_rule ctx) then
                       Some (st2\<lparr>tmp_uncertain_indices :=
                                   tmp_uncertain_indices st2 @ [uncertain_index]\<rparr>)
                     else
                       Some (st2\<lparr>tmp_accepted_indices :=
                                   tmp_accepted_indices st2 @ [uncertain_index]\<rparr>))
                  else
                    Some (st2\<lparr>tmp_rejected_indices :=
                                tmp_rejected_indices st2 @ [uncertain_index],
                              last_rejected_range := subtree_nodes_range ctx ! uncertain_index\<rparr>))
            else
              Some (st1\<lparr>tmp_rejected_indices := tmp_rejected_indices st1 @ [uncertain_index],
                        last_rejected_range := subtree_nodes_range ctx ! uncertain_index\<rparr>)))"

fun adapt_loop ::
  "'s MaskContext \<Rightarrow> bool \<Rightarrow> 's MaskState \<Rightarrow> nat list \<Rightarrow> 's MaskState option" where
  "adapt_loop ctx is_root_rule st [] = Some st"
| "adapt_loop ctx is_root_rule st (uncertain_index # rest) =
     (if length (sorted_decoded_vocab ctx) \<le> uncertain_index \<or>
         length (subtree_nodes_range ctx) \<le> uncertain_index
      then None
      else (case adapt_token ctx is_root_rule st uncertain_index of
              None \<Rightarrow> None
            | Some st' \<Rightarrow> adapt_loop ctx is_root_rule st' rest))"

definition reset_all :: "(int \<Rightarrow> bool) \<Rightarrow> int list \<Rightarrow> int \<Rightarrow> bool" where
  "reset_all bitset ids = (\<lambda>id. bitset id \<and> id \<notin> set ids)"

definition set_all :: "(int \<Rightarrow> bool) \<Rightarrow> int list \<Rightarrow> int \<Rightarrow> bool" where
  "set_all bitset ids = (\<lambda>id. bitset id \<or> id \<in> set ids)"

definition merge_adapted ::
  "'s MaskContext \<Rightarrow> AdaptiveTokenMask \<Rightarrow> 's MaskState \<Rightarrow> AdaptiveTokenMask" where
  "merge_adapted ctx cache0 st =
     (let cache = cache0\<lparr>uncertain_indices := tmp_uncertain_indices st\<rparr> in
      case store_type cache of
        kAccepted \<Rightarrow>
          if length (accepted_indices cache) + length (tmp_accepted_indices st)
               < USE_BITSET_THRESHOLD ctx
          then cache\<lparr>accepted_indices :=
                       IntsetUnion (accepted_indices cache) (tmp_accepted_indices st)\<rparr>
          else cache\<lparr>store_type := kAcceptedBitset,
                     accepted_bitset :=
                       bitset_of ctx (accepted_indices cache @ tmp_accepted_indices st),
                     accepted_indices := []\<rparr>
      | kRejected \<Rightarrow>
          if length (rejected_indices cache) + length (tmp_rejected_indices st)
               < USE_BITSET_THRESHOLD ctx
          then cache\<lparr>rejected_indices :=
                       IntsetUnion (rejected_indices cache) (tmp_rejected_indices st)\<rparr>
          else cache\<lparr>store_type := kAcceptedBitset,
                     accepted_bitset :=
                       reset_all (\<lambda>id. True)
                         (special_token_ids ctx @
                          map (token_id ctx)
                            (uncertain_indices cache @ rejected_indices cache @
                             tmp_rejected_indices st)),
                     rejected_indices := []\<rparr>
      | kAcceptedBitset \<Rightarrow>
          cache\<lparr>accepted_bitset :=
                  set_all (accepted_bitset cache) (map (token_id ctx) (tmp_accepted_indices st))\<rparr>)"

definition AdaptCacheWithLookahead ::
  "'s MaskContext \<Rightarrow> bool \<Rightarrow> AdaptiveTokenMask \<Rightarrow> 's MaskState \<Rightarrow> AdaptiveTokenMask option" where
  "AdaptCacheWithLookahead ctx is_root_rule cache st =
     (if is_root_rule then
        Some (merge_adapted ctx cache (st\<lparr>tmp_rejected_indices := uncertain_indices cache\<rparr>))
      else if lookahead_assertion_id (init_rule ctx) = None then Some cache
      else
        (case adapt_loop ctx is_root_rule
                (st\<lparr>prev_matched_size := 0, last_rejected_range := 0, prev_token := None\<rparr>)
                (uncertain_indices cache) of
           None \<Rightarrow> None
         | Some st' \<Rightarrow> Some (merge_adapted ctx cache st')))"

record CrossingCacheProbe =
  crossing_cache_is_available :: bool
  perfect_match :: "AdaptiveTokenMask option"
  base_match :: "AdaptiveTokenMask option"

definition initial_mask_state :: "'s list \<Rightarrow> 's MaskState" where
  "initial_mask_state init_stack =
     \<lparr>parser_stack = init_stack,
      tmp_accepted_indices = [], tmp_rejected_indices = [], tmp_uncertain_indices = [],
      tmp_rejected_by_lookahead_indices = [], tmp_accepted_by_lookahead_indices = [],
      tmp_can_reach_end_stack = [False], tmp_can_reach_end_prefix_or_stack = [False],
      prev_token = None, prev_matched_size = 0, last_rejected_range = 0\<rparr>"

definition GetAdaptiveTokenMask ::
  "'s MaskContext \<Rightarrow> CrossingCacheProbe \<Rightarrow> (nat \<times> nat) list \<Rightarrow> 's list \<Rightarrow> bool \<Rightarrow>
   AdaptiveTokenMask option" where
  "GetAdaptiveTokenMask ctx probe possible_intervals init_stack is_root_rule =
     (let st = initial_mask_state init_stack;
          compute =
            (case GetTokenMaskWithFirstCharacterCheck ctx is_root_rule possible_intervals st of
               None \<Rightarrow> None
             | Some (rejected_filled, st') \<Rightarrow>
                 if rejected_filled
                 then Some (AdaptiveTokenMask_with_rejected ctx (tmp_accepted_indices st')
                              (tmp_rejected_indices st') (tmp_uncertain_indices st'))
                 else Some (AdaptiveTokenMask_without_rejected ctx (tmp_accepted_indices st')
                              (tmp_uncertain_indices st')))
      in if crossing_cache_is_available probe then
           (case perfect_match probe of
              Some crossing_cache \<Rightarrow> Some crossing_cache
            | None \<Rightarrow>
                (case base_match probe of
                   Some crossing_cache \<Rightarrow> AdaptCacheWithLookahead ctx is_root_rule crossing_cache st
                 | None \<Rightarrow> compute))
         else compute)"

section \<open>Grammar normalizer\<close>

text \<open>
  \<open>SingleElementExprEliminator\<close> unwraps sequences and choices with one element and
  turns a positive character class holding one character into a byte string.  The
  encoder \<open>CharToUTF8\<close> is declared outside the files at hand and is a parameter here.
\<close>

fun SingleElementExprEliminator_VisitExpr :: "(int \<Rightarrow> int list) \<Rightarrow> GrammarExpr \<Rightarrow> GrammarExpr"
and SingleElementExprEliminator_VisitExprs :: "(int \<Rightarrow> int list) \<Rightarrow> GrammarExpr list \<Rightarrow> GrammarExpr list"
where
  "SingleElementExprEliminator_VisitExpr CharToUTF8 (Sequence es) =
     (let sequence_ids = SingleElementExprEliminator_VisitExprs CharToUTF8 es in
      if length sequence_ids = 1 then hd sequence_ids else Sequence sequence_ids)"
| "SingleElementExprEliminator_VisitExpr CharToUTF8 (Choices es) =
     (let choice_ids = SingleElementExprEliminator_VisitExprs CharToUTF8 es in
      if length choice_ids = 1 then hd choice_ids else Choices choice_ids)"
| "SingleElementExprEliminator_VisitExpr CharToUTF8 (CharacterClass neg ranges) =
     (if \<not> neg \<and> length ranges = 1 \<and> fst (hd ranges) = snd (hd ranges)
      then ByteString (CharToUTF8 (fst (hd ranges)))
      else CharacterClass neg ranges)"
| "SingleElementExprEliminator_VisitExpr CharToUTF8 (ByteString bs) = ByteString bs"
| "SingleElementExprEliminator_VisitExpr CharToUTF8 (CharacterClassStar neg ranges) =
     CharacterClassStar neg ranges"
| "SingleElementExprEliminator_VisitExpr CharToUTF8 EmptyStr = EmptyStr"
| "SingleElementExprEliminator_VisitExpr CharToUTF8 (RuleRef r) = RuleRef r"
| "SingleElementExprEliminator_VisitExpr CharToUTF8 (Repeat r lo hi) = Repeat r lo hi"
| "SingleElementExprEliminator_VisitExpr CharToUTF8 (TagDispatchExpr td) = TagDispatchExpr td"
| "SingleElementExprEliminator_VisitExprs CharToUTF8 [] = []"
| "SingleElementExprEliminator_VisitExprs CharToUTF8 (e # es) =
     SingleElementExprEliminator_VisitExpr CharToUTF8 e #
     SingleElementExprEliminator_VisitExprs CharToUTF8 es"

definition SingleElementExprEliminator_Apply :: "(int \<Rightarrow> int list) \<Rightarrow> Grammar \<Rightarrow> Grammar" where
  "SingleElementExprEliminator_Apply CharToUTF8 g =
     g\<lparr>rules := map (\<lambda>r. r\<lparr>body_expr_id :=
                               map_option (SingleElementExprEliminator_VisitExpr CharToUTF8)
                                 (body_expr_id r),
                             lookahead_assertion_id :=
                               map_option (SingleElementExprEliminator_VisitExpr CharToUTF8)
                                 (lookahead_assertion_id r)\<rparr>) (rules g)\<rparr>"

text \<open>
  \<open>StructureNormalizerImpl\<close>.  Every visitor threads the builder; \<open>None\<close> stands for
  the fatal log or failed check that ends the run in the source.
  \<open>finish_choices\<close> is the tail of \<open>VisitChoices_\<close>: the empty string found on the way
  is put in front, and an empty result fails the check.  \<open>VisitChoices_loop\<close> returns
  the collected choices together with \<open>found_empty\<close>.
\<close>

definition finish_choices :: "GrammarExpr list \<Rightarrow> bool \<Rightarrow> GrammarExpr list option" where
  "finish_choices new_choice_ids found_empty =
     (let ids = (if found_empty then EmptyStr # new_choice_ids else new_choice_ids) in
      if length ids \<ge> 1 then Some ids else None)"

fun VisitSequence_ids ::
  "string \<Rightarrow> GrammarBuilder \<Rightarrow> GrammarExpr list \<Rightarrow> (GrammarExpr list \<times> GrammarBuilder) option"
and VisitChoices_loop ::
  "string \<Rightarrow> GrammarBuilder \<Rightarrow> GrammarExpr list \<Rightarrow>
   (GrammarExpr list \<times> bool \<times> GrammarBuilder) option"
where
  "VisitSequence_ids cur_rule_name b [] = Some ([], b)"
| "VisitSequence_ids cur_rule_name b (Sequence xs # es) =
     (case VisitSequence_ids cur_rule_name b xs of
        None \<Rightarrow> None
      | Some (sub_sequence_ids, b1) \<Rightarrow>
          (case VisitSequence_ids cur_rule_name b1 es of
             None \<Rightarrow> None
           | Some (rest, b2) \<Rightarrow> Some (sub_sequence_ids @ rest, b2)))"
| "VisitSequence_ids cur_rule_name b (Choices cs # es) =
     (case VisitChoices_loop cur_rule_name b cs of
        None \<Rightarrow> None
      | Some (ids, found_empty, b1) \<Rightarrow>
          (case finish_choices ids found_empty of
             None \<Rightarrow> None
           | Some sub_choice_ids \<Rightarrow>
               (case (if length sub_choice_ids = 1 then
                        (case hd sub_choice_ids of
                           EmptyStr \<Rightarrow> Some ([], b1)
                         | Sequence elements \<Rightarrow> Some (elements, b1)
                         | _ \<Rightarrow> None)
                      else
                        (let (new_choice_rule_id, b1') =
                               AddRuleWithHint b1 cur_rule_name (Choices sub_choice_ids)
                         in Some ([RuleRef (int new_choice_rule_id)], b1'))) of
                  None \<Rightarrow> None
                | Some (front, b2) \<Rightarrow>
                    (case VisitSequence_ids cur_rule_name b2 es of
                       None \<Rightarrow> None
                     | Some (rest, b3) \<Rightarrow> Some (front @ rest, b3)))))"
| "VisitSequence_ids cur_rule_name b (EmptyStr # es) = VisitSequence_ids cur_rule_name b es"
| "VisitSequence_ids cur_rule_name b (TagDispatchExpr td # es) =
     (let (new_rule_id, b1) = AddRuleWithHint b cur_rule_name (TagDispatchExpr td) in
      case VisitSequence_ids cur_rule_name b1 es of
        None \<Rightarrow> None
      | Some (rest, b2) \<Rightarrow> Some (RuleRef (int new_rule_id) # rest, b2))"
| "VisitSequence_ids cur_rule_name b (ByteString bs # es) =
     (case VisitSequence_ids cur_rule_name b es of
        None \<Rightarrow> None
      | Some (rest, b2) \<Rightarrow> Some (ByteString bs # rest, b2))"
| "VisitSequence_ids cur_rule_name b (CharacterClass neg rs # es) =
     (case VisitSequence_ids cur_rule_name b es of
        None \<Rightarrow> None
      | Some (rest, b2) \<Rightarrow> Some (CharacterClass neg rs # rest, b2))"
| "VisitSequence_ids cur_rule_name b (CharacterClassStar neg rs # es) =
     (case VisitSequence_ids cur_rule_name b es of
        None \<Rightarrow> None
      | Some (rest, b2) \<Rightarrow> Some (CharacterClassStar neg rs # rest, b2))"
| "VisitSequence_ids cur_rule_name b (RuleRef r # es) =
     (case VisitSequence_ids cur_rule_name b es of
        None \<Rightarrow> None
      | Some (rest, b2) \<Rightarrow> Some (RuleRef r # rest, b2))"
| "VisitSequence_ids cur_rule_name b (Repeat r lo hi # es) =
     (case VisitSequence_ids cur_rule_name b es of
        None \<Rightarrow> None
      | Some (rest, b2) \<Rightarrow> Some (Repeat r lo hi # rest, b2))"
| "VisitChoices_loop cur_rule_name b [] = Some ([], False, b)"
| "VisitChoices_loop cur_rule_name b (Sequence xs # es) =
     (case VisitSequence_ids cur_rule_name b xs of
        None \<Rightarrow> None
      | Some (sub_sequence_ids, b1) \<Rightarrow>
          (case VisitChoices_loop cur_rule_name b1 es of
             None \<Rightarrow> None
           | Some (rest, found_empty, b2) \<Rightarrow>
               if length sub_sequence_ids = 0 then Some (rest, True, b2)
               else Some (Sequence sub_sequence_ids # rest, found_empty, b2)))"
| "VisitChoices_loop cur_rule_name b (Choices cs # es) =
     (case VisitChoices_loop cur_rule_name b cs of
        None \<Rightarrow> None
      | Some (ids, found_empty0, b1) \<Rightarrow>
          (case finish_choices ids found_empty0 of
             None \<Rightarrow> None
           | Some sub_choice_ids \<Rightarrow>
               (case VisitChoices_loop cur_rule_name b1 es of
                  None \<Rightarrow> None
                | Some (rest, found_empty, b2) \<Rightarrow>
                    if hd sub_choice_ids = EmptyStr
                    then Some (tl sub_choice_ids @ rest, True, b2)
                    else Some (sub_choice_ids @ rest, found_empty, b2))))"
| "VisitChoices_loop cur_rule_name b (EmptyStr # es) =
     (case VisitChoices_loop cur_rule_name b es of
        None \<Rightarrow> None
      | Some (rest, found_empty, b2) \<Rightarrow> Some (rest, True, b2))"
| "VisitChoices_loop cur_rule_name b (TagDispatchExpr td # es) =
     (let (new_rule_id, b1) = AddRuleWithHint b cur_rule_name (TagDispatchExpr td) in
      case VisitChoices_loop cur_rule_name b1 es of
        None \<Rightarrow> None
      | Some (rest, found_empty, b2) \<Rightarrow>
          Some (Sequence [RuleRef (int new_rule_id)] # rest, found_empty, b2))"
| "VisitChoices_loop cur_rule_name b (ByteString bs # es) =
     (case VisitChoices_loop cur_rule_name b es of
        None \<Rightarrow> None
      | Some (rest, found_empty, b2) \<Rightarrow> Some (Sequence [ByteString bs] # rest, found_empty, b2))"
| "VisitChoices_loop cur_rule_name b (CharacterClass neg rs # es) =
     (case VisitChoices_loop cur_rule_name b es of
        None \<Rightarrow> None
      | Some (rest, found_empty, b2) \<Rightarrow>
          Some (Sequence [CharacterClass neg rs] # rest, found_empty, b2))"
| "VisitChoices_loop cur_rule_name b (CharacterClassStar neg rs # es) =
     (case VisitChoices_loop cur_rule_name b es of
        None \<Rightarrow> None
      | Some (rest, found_empty, b2) \<Rightarrow>
          Some (Sequence [CharacterClassStar neg rs] # rest, found_empty, b2))"
| "VisitChoices_loop cur_rule_name b (RuleRef r # es) =
     (case VisitChoices_loop cur_rule_name b es of
        None \<Rightarrow> None
      | Some (rest, found_empty, b2) \<Rightarrow> Some (Sequence [RuleRef r] # rest, found_empty, b2))"
| "VisitChoices_loop cur_rule_name b (Repeat r lo hi # es) =
     (case VisitChoices_loop cur_rule_name b es of
        None \<Rightarrow> None
      | Some (rest, found_empty, b2) \<Rightarrow> Some (Sequence [Repeat r lo hi] # rest, found_empty, b2))"

definition VisitChoices_ids ::
  "string \<Rightarrow> GrammarBuilder \<Rightarrow> GrammarExpr list \<Rightarrow> (GrammarExpr list \<times> GrammarBuilder) option" where
  "VisitChoices_ids cur_rule_name b cs =
     (case VisitChoices_loop cur_rule_name b cs of
        None \<Rightarrow> None
      | Some (ids, found_empty, b1) \<Rightarrow>
          (case finish_choices ids found_empty of
             None \<Rightarrow> None
           | Some new_choice_ids \<Rightarrow> Some (new_choice_ids, b1)))"

fun VisitRuleBody ::
  "string \<Rightarrow> GrammarBuilder \<Rightarrow> GrammarExpr \<Rightarrow> (GrammarExpr \<times> GrammarBuilder) option" where
  "VisitRuleBody cur_rule_name b (Sequence es) =
     (case VisitSequence_ids cur_rule_name b es of
        None \<Rightarrow> None
      | Some (ids, b1) \<Rightarrow> Some (Choices [Sequence ids], b1))"
| "VisitRuleBody cur_rule_name b (Choices cs) =
     (case VisitChoices_ids cur_rule_name b cs of
        None \<Rightarrow> None
      | Some (ids, b1) \<Rightarrow> Some (Choices ids, b1))"
| "VisitRuleBody cur_rule_name b EmptyStr = Some (Choices [EmptyStr], b)"
| "VisitRuleBody cur_rule_name b (TagDispatchExpr td) = Some (TagDispatchExpr td, b)"
| "VisitRuleBody cur_rule_name b e = Some (Choices [Sequence [e]], b)"

fun VisitLookaheadAssertion ::
  "string \<Rightarrow> GrammarBuilder \<Rightarrow> GrammarExpr option \<Rightarrow> (GrammarExpr option \<times> GrammarBuilder) option" where
  "VisitLookaheadAssertion cur_rule_name b None = Some (None, b)"
| "VisitLookaheadAssertion cur_rule_name b (Some (Sequence es)) =
     (case VisitSequence_ids cur_rule_name b es of
        None \<Rightarrow> None
      | Some (ids, b1) \<Rightarrow> Some (Some (Sequence ids), b1))"
| "VisitLookaheadAssertion cur_rule_name b (Some (Choices cs)) = None"
| "VisitLookaheadAssertion cur_rule_name b (Some EmptyStr) = None"
| "VisitLookaheadAssertion cur_rule_name b (Some (TagDispatchExpr td)) = None"
| "VisitLookaheadAssertion cur_rule_name b (Some e) = Some (Some (Sequence [e]), b)"

fun normalize_rules :: "GrammarBuilder \<Rightarrow> (nat \<times> Rule) list \<Rightarrow> GrammarBuilder option" where
  "normalize_rules b [] = Some b"
| "normalize_rules b ((i, rule) # rest) =
     (case body_expr_id rule of
        None \<Rightarrow> None
      | Some grammar_expr \<Rightarrow>
          (case VisitRuleBody (name rule) b grammar_expr of
             None \<Rightarrow> None
           | Some (new_body_expr_id, b1) \<Rightarrow>
               (case VisitLookaheadAssertion (name rule) (UpdateRuleBody b1 i new_body_expr_id)
                       (lookahead_assertion_id rule) of
                  None \<Rightarrow> None
                | Some (new_lookahead, b2) \<Rightarrow>
                    normalize_rules (UpdateLookaheadAssertion b2 i new_lookahead) rest)))"

fun add_empty_rules :: "GrammarBuilder \<Rightarrow> Rule list \<Rightarrow> GrammarBuilder" where
  "add_empty_rules b [] = b"
| "add_empty_rules b (r # rs) = add_empty_rules (snd (AddEmptyRule b (name r))) rs"

definition Get :: "GrammarBuilder \<Rightarrow> string \<Rightarrow> Grammar option" where
  "Get b root_name =
     (case find (\<lambda>i. name (b ! i) = root_name) [0..<length b] of
        None \<Rightarrow> None
      | Some root \<Rightarrow> Some \<lparr>rules = b, root_rule_id = root\<rparr>)"

definition StructureNormalizer_Apply :: "(int \<Rightarrow> int list) \<Rightarrow> Grammar \<Rightarrow> Grammar option" where
  "StructureNormalizer_Apply CharToUTF8 grammar =
     (let grammar_new = SingleElementExprEliminator_Apply CharToUTF8 grammar;
          b0 = add_empty_rules [] (rules grammar_new)
      in if root_rule_id grammar_new < length (rules grammar_new) then
           (case normalize_rules b0 (enumerate 0 (rules grammar_new)) of
              None \<Rightarrow> None
            | Some b \<Rightarrow> Get b (name (rules grammar_new ! root_rule_id grammar_new)))
         else None)"

text \<open>
  The normal form: a rule body is a tag dispatch or a non-empty choices whose first
  child is the empty string or a sequence of atoms and whose other children are
  sequences of atoms; a look-ahead assertion is absent or a sequence of atoms.
\<close>

fun is_atom :: "GrammarExpr \<Rightarrow> bool" where
  "is_atom (ByteString bs) = True"
| "is_atom (CharacterClass neg rs) = True"
| "is_atom (CharacterClassStar neg rs) = True"
| "is_atom (RuleRef r) = True"
| "is_atom (Repeat r lo hi) = True"
| "is_atom e = False"

fun is_atom_sequence :: "GrammarExpr \<Rightarrow> bool" where
  "is_atom_sequence (Sequence es) = list_all is_atom es"
| "is_atom_sequence e = False"

fun normalized_choices :: "GrammarExpr list \<Rightarrow> bool" where
  "normalized_choices [] = False"
| "normalized_choices (c # cs) =
     ((c = EmptyStr \<or> is_atom_sequence c) \<and> list_all is_atom_sequence cs)"

fun normalized_body :: "GrammarExpr \<Rightarrow> bool" where
  "normalized_body (Choices cs) = normalized_choices cs"
| "normalized_body (TagDispatchExpr td) = True"
| "normalized_body e = False"

definition normalized_rule :: "Rule \<Rightarrow> bool" where
  "normalized_rule r =
     ((case body_expr_id r of None \<Rightarrow> False | Some body \<Rightarrow> normalized_body body) \<and>
      (case lookahead_assertion_id r of None \<Rightarrow> True | Some la \<Rightarrow> is_atom_sequence la))"

text \<open>
  Bookkeeping for the proofs: \<open>extends_normalized b b'\<close> says that \<open>b'\<close> is \<open>b\<close> followed
  by rules in normal form, and \<open>rules_filled k n b\<close> that the first \<open>k\<close> of the \<open>n\<close> reserved
  rules and every rule added after them are in normal form.
\<close>

definition extends_normalized :: "GrammarBuilder \<Rightarrow> GrammarBuilder \<Rightarrow> bool" where
  "extends_normalized b b' = (\<exists>new. b' = b @ new \<and> list_all normalized_rule new)"

definition normalized_lookahead :: "GrammarExpr option \<Rightarrow> bool" where
  "normalized_lookahead la = (case la of None \<Rightarrow> True | Some l \<Rightarrow> is_atom_sequence l)"

definition rules_filled :: "nat \<Rightarrow> nat \<Rightarrow> GrammarBuilder \<Rightarrow> bool" where
  "rules_filled k n b =
     (n \<le> length b \<and> (\<forall>j<length b. j < k \<or> n \<le> j \<longrightarrow> normalized_rule (b ! j)))"


section \<open>Example instances\<close>

text \<open>
  Small concrete instances of the parameters, used to run the general results on an input.
  \<open>example_VisitSub\<close> lowers a constant string as the converter does (one byte-string
  rule); \<open>example_Compute\<close> is an injective fingerprint for constant strings;
  \<open>example_json_parse\<close> is a JSON parser restricted to two inputs.
\<close>

definition example_VisitSub :: "string \<Rightarrow> Converter \<Rightarrow> (ISTError, int) Result \<times> Converter" where
  "example_VisitSub v st =
     (let (rid, b) = AddRuleWithHint (grammar_builder st) ''const_string''
                       (Choices [Sequence [ByteString (map of_char v)]])
      in (Ok (int rid), st\<lparr>grammar_builder := b\<rparr>))"

definition example_Compute :: "string \<Rightarrow> string" where
  "example_Compute v = ''const_string:'' @ v"

definition example_state :: Converter where
  "example_state = \<lparr>grammar_builder = [], fingerprint_cache = (\<lambda>h. [])\<rparr>"

definition example_json_parse :: "string \<Rightarrow> string \<times> int json" where
  "example_json_parse js = (if js = ''[]'' then ([], JArray []) else (''syntax error'', JNull))"

definition example_ops :: "int double_ops" where
  "example_ops = \<lparr>to_double = (\<lambda>i. i), is_whole = (\<lambda>d. True), to_int64 = (\<lambda>d. d),
                   serialize = (\<lambda>v. ''?'')\<rparr>"

definition example_ParseOther ::
  "string \<Rightarrow> (string \<times> int json) list \<Rightarrow> string \<Rightarrow> (int, unit) schema_cache \<Rightarrow>
   (SchemaError, unit) Result \<times> (int, unit) schema_cache" where
  "example_ParseOther which obj hint c = (Aborted, c)"

definition example_integer_schema :: "(string \<times> int json) list" where
  "example_integer_schema =
     [(''maximum'', JInt 3), (''minimum'', JInt 5), (''type'', JString ''integer'')]"

definition example_whole_double_schema :: "(string \<times> int json) list" where
  "example_whole_double_schema =
     [(''maximum'', JInt 3), (''minimum'', JDouble 5), (''type'', JString ''integer'')]"

definition example_number_schema :: "(string \<times> int json) list" where
  "example_number_schema =
     [(''maximum'', JDouble 3), (''minimum'', JInt 5), (''type'', JString ''number'')]"

text \<open>
  A parser for the rule \<open>r ::= "a"\<close> with the look-ahead \<open>"b"\<close> (frames 10, 11) or
  \<open>"bc"\<close> (frames 20, 21, 22), and a vocabulary with the single token \<open>"ab"\<close>.
\<close>

definition example_parser :: "nat EarleyParser" where
  "example_parser =
     \<lparr>Advance = (\<lambda>s ch. if s = 0 \<and> ch = 97 then Some 1
                        else if s = 10 \<and> ch = 98 then Some 11
                        else if s = 20 \<and> ch = 98 then Some 21
                        else if s = 21 \<and> ch = 99 then Some 22
                        else None),
      IsCompleted = (\<lambda>s. s = 1 \<or> s = 11 \<or> s = 22),
      PushStateAndExpand = (\<lambda>lookahead. if lookahead = Sequence [ByteString [98]] then 10 else 20)\<rparr>"

definition example_context :: "GrammarExpr \<Rightarrow> bool \<Rightarrow> nat MaskContext" where
  "example_context lookahead exact =
     \<lparr>parser = example_parser,
      init_rule = \<lparr>name = ''r'', body_expr_id = Some (Choices [Sequence [ByteString [97]]]),
                   lookahead_assertion_id = Some lookahead, is_exact_lookahead = exact\<rparr>,
      sorted_decoded_vocab = [(0, [97, 98])],
      subtree_nodes_range = [1],
      fill_reject_indices = False,
      speculative_calculation = False,
      speculative_mask = (\<lambda>ch. False),
      definite_accepted_bitset = None,
      USE_BITSET_THRESHOLD = 256,
      special_token_ids = []\<rparr>"

definition no_crossing_cache :: CrossingCacheProbe where
  "no_crossing_cache =
     \<lparr>crossing_cache_is_available = False, perfect_match = None, base_match = None\<rparr>"



definition example_CharToUTF8 :: "int \<Rightarrow> int list" where
  "example_CharToUTF8 c = [c]"

definition example_grammar :: Grammar where
  "example_grammar =
     \<lparr>rules =
        [\<lparr>name = ''root'',
          body_expr_id = Some (Choices
            [RuleRef 0,
             Sequence [ByteString [97], Choices [ByteString [98], Choices [ByteString [99], EmptyStr]]],
             TagDispatchExpr \<lparr>tag_rule_pairs = [], stop_eos = True, stop_str = [],
                               loop_after_dispatch = False, excluded_str = []\<rparr>]),
          lookahead_assertion_id = Some (ByteString [100]),
          is_exact_lookahead = False\<rparr>],
      root_rule_id = 0\<rparr>"

definition example_normalized_grammar :: Grammar where
  "example_normalized_grammar =
     \<lparr>rules =
        [\<lparr>name = ''root'',
          body_expr_id = Some (Choices
            [Sequence [RuleRef 0], Sequence [ByteString [97], RuleRef 1], Sequence [RuleRef 2]]),
          lookahead_assertion_id = Some (Sequence [ByteString [100]]),
          is_exact_lookahead = False\<rparr>,
         \<lparr>name = ''root_1'',
          body_expr_id = Some (Choices
            [EmptyStr, Sequence [ByteString [98]], Sequence [ByteString [99]]]),
          lookahead_assertion_id = None,
          is_exact_lookahead = False\<rparr>,
         \<lparr>name = ''root_2'',
          body_expr_id = Some (TagDispatchExpr
            \<lparr>tag_rule_pairs = [], stop_eos = True, stop_str = [],
             loop_after_dispatch = False, excluded_str = []\<rparr>),
          lookahead_assertion_id = None,
          is_exact_lookahead = False\<rparr>],
      root_rule_id = 0\<rparr>"







section \<open>Results about the sub-grammar adder\<close>












section \<open>Results about the analyzer\<close>





section \<open>Results about the lowering\<close>

text \<open>
  C6 (as amended).  The rule that lowering an analysed any_text format returns has this
  body: with detected end strings, a tag dispatch with no triggers, \<open>stop_eos = false\<close>,
  \<open>stop_str\<close> the non-empty detected ends, \<open>loop_after_dispatch = false\<close> and the
  format's excludes; without detected end strings but with excludes, a tag dispatch with no
  triggers, \<open>stop_eos = true\<close>, no stop strings, \<open>loop_after_dispatch = false\<close> and
  the excludes; with neither, a \<open>char_class_star\<close> over \<open>[0, 0x10FFFF]\<close>.  (In a debug
  build the first case aborts when every detected end string is empty.)
\<close>

theorem C6_any_text_lowering:
  "lowered_body (Converter_VisitSub_AnyTextFormat debug b excludes detected_end_strs) =
     (if debug \<and> detected_end_strs \<noteq> [] \<and> filter (\<lambda>s. s \<noteq> []) detected_end_strs = [] then None
      else if detected_end_strs \<noteq> [] then
        Some (TagDispatchExpr \<lparr>tag_rule_pairs = [], stop_eos = False,
                stop_str = filter (\<lambda>s. s \<noteq> []) detected_end_strs,
                loop_after_dispatch = False, excluded_str = excludes\<rparr>)
      else if excludes \<noteq> [] then
        Some (TagDispatchExpr \<lparr>tag_rule_pairs = [], stop_eos = True, stop_str = [],
                loop_after_dispatch = False, excluded_str = excludes\<rparr>)
      else Some (Choices [Sequence [CharacterClassStar False [(0, 0x10FFFF)]]]))"
  by (simp add: lowered_body_def Converter_VisitSub_AnyTextFormat_def AddRuleWithHint_def
      AddRule_def Let_def)

text \<open>
  Counterexample to C6 as stated: any_text with excludes \<open>["x"]\<close> and no detected end
  strings does not lower to a \<open>char_class_star\<close> but to a tag dispatch that stops at the
  end of the output.
\<close>

theorem C6_counterexample:
  "lowered_body (Converter_VisitSub_AnyTextFormat False [] [''x''] []) =
     Some (TagDispatchExpr \<lparr>tag_rule_pairs = [], stop_eos = True, stop_str = [],
             loop_after_dispatch = False, excluded_str = [''x'']\<rparr>)
   \<and> lowered_body (Converter_VisitSub_AnyTextFormat False [] [''x''] []) \<noteq>
     Some (Choices [Sequence [CharacterClassStar False [(0, 0x10FFFF)]]])"
  by (simp add: lowered_body_def Converter_VisitSub_AnyTextFormat_def AddRuleWithHint_def
      AddRule_def Let_def)

lemma map_of_prefix:
  "prefix xs ys \<Longrightarrow> map_of xs k = Some v \<Longrightarrow> map_of ys k = Some v"
  by (auto simp: prefix_def)

lemma Converter_Visit_registers:
  assumes "Converter_Visit Compute VisitSub f st = (Ok rid, st1)"
      and "cached_rule_id st (Compute f) = None \<Longrightarrow>
           cached_rule_id (snd (VisitSub f st)) (Compute f) = None"
  shows "cached_rule_id st1 (Compute f) = Some rid"
proof (cases "cached_rule_id st (Compute f)")
  case (Some r)
  then show ?thesis using assms(1)
    by (auto simp: Converter_Visit_def cached_rule_id_def Let_def)
next
  case None
  obtain r st' where vs: "VisitSub f st = (r, st')" by (cases "VisitSub f st")
  have n': "map_of (fingerprint_cache st' (FnvaHash (Compute f))) (Compute f) = None"
    using assms(2)[OF None] vs by (simp add: cached_rule_id_def)
  show ?thesis using assms(1) None vs n'
    by (auto simp: Converter_Visit_def cached_rule_id_def Let_def map_add_def split: Result.splits)
qed

lemma Converter_Visit_hit:
  "cached_rule_id st (Compute f) = Some rid \<Longrightarrow> Converter_Visit Compute VisitSub f st = (Ok rid, st)"
  by (simp add: Converter_Visit_def cached_rule_id_def Let_def)

text \<open>
  C7.  Let \<open>Visit\<close> lower a format \<open>f1\<close> successfully to rule id \<open>id1\<close>, where lowering
  the body of \<open>f1\<close> does not itself register the fingerprint of \<open>f1\<close> (a format's
  serialization differs from that of its proper subtrees).  Then in the resulting state,
  and in every later state whose cache extends it, visiting any format \<open>f2\<close> with the same
  fingerprint returns \<open>id1\<close> and leaves the state as it is: no rule is added.
\<close>

theorem C7_identical_fingerprint_same_rule:
  assumes "Converter_Visit Compute VisitSub f1 st = (Ok id1, st1)"
      and "cached_rule_id st (Compute f1) = None \<Longrightarrow>
           cached_rule_id (snd (VisitSub f1 st)) (Compute f1) = None"
      and "cache_extends st1 st2"
      and "Compute f2 = Compute f1"
  shows "Converter_Visit Compute VisitSub f2 st2 = (Ok id1, st2)"
proof -
  have "cached_rule_id st1 (Compute f1) = Some id1"
    using Converter_Visit_registers[OF assms(1) assms(2)] .
  then have "cached_rule_id st2 (Compute f2) = Some id1"
    using assms(3) assms(4) map_of_prefix
    by (fastforce simp: cached_rule_id_def cache_extends_def)
  then show ?thesis by (rule Converter_Visit_hit)
qed

text \<open>
  Witness for C7: lowering the constant string \<open>"a"\<close> twice from the empty converter state
  gives rule id 0 both times, and the second visit changes nothing.
\<close>

theorem C7_witness:
  "Converter_Visit example_Compute example_VisitSub ''a'' example_state =
     (Ok 0, snd (Converter_Visit example_Compute example_VisitSub ''a'' example_state))
   \<and> Converter_Visit example_Compute example_VisitSub ''a'' (snd (Converter_Visit example_Compute example_VisitSub ''a'' example_state)) =
     (Ok 0, snd (Converter_Visit example_Compute example_VisitSub ''a'' example_state))"
proof -
  let ?st1 = "snd (Converter_Visit example_Compute example_VisitSub ''a'' example_state)"
  have h1: "Converter_Visit example_Compute example_VisitSub ''a'' example_state = (Ok 0, ?st1)"
    by (simp add: Converter_Visit_def example_VisitSub_def example_state_def AddRuleWithHint_def
        AddRule_def Let_def)
  have h2: "cached_rule_id example_state (example_Compute ''a'') = None \<Longrightarrow>
           cached_rule_id (snd (example_VisitSub ''a'' example_state)) (example_Compute ''a'') = None"
    by (simp add: cached_rule_id_def example_VisitSub_def example_state_def AddRuleWithHint_def
        AddRule_def Let_def)
  have h3: "cache_extends ?st1 ?st1" by (simp add: cache_extends_def)
  have h4: "example_Compute ''a'' = example_Compute ''a''" by simp
  show ?thesis using C7_identical_fingerprint_same_rule[OF h1 h2 h3 h4] h1 by simp
qed

section \<open>Results about the public entry point\<close>

text \<open>
  C10.  If the input parses as JSON and its top-level value is not an object,
  \<open>StructuralTagToGrammar\<close> returns the invalid-structural-tag error "Structural tag must
  be an object"; and it returns an invalid-JSON error exactly when JSON parsing fails.
\<close>

theorem C10_top_level_error_kinds:
  "(fst (json_parse js) = [] \<and> \<not> is_object (snd (json_parse js)) \<longrightarrow>
      StructuralTagToGrammar json_parse ParseFormat md Convert Normalize js =
        Err (InvalidStructuralTagError ''Structural tag must be an object''))
   \<and> ((\<exists>msg. StructuralTagToGrammar json_parse ParseFormat md Convert Normalize js =
               Err (InvalidJSONError msg)) \<longleftrightarrow> fst (json_parse js) \<noteq> [])"
proof -
  obtain err v where p: "json_parse js = (err, v)" by (cases "json_parse js")
  have a: "\<not> is_object v \<Longrightarrow> ParseStructuralTag ParseFormat v = Err ''Structural tag must be an object''"
    by (cases v) (simp_all add: ParseStructuralTag_def)
  show ?thesis using p a
    by (auto simp: StructuralTagToGrammar_def FromJSON_def split: Result.splits option.splits)
qed

text \<open>
  Witness for C10: the input \<open>[]\<close> parses to an array and gives an invalid-structural-tag
  error; the input \<open>{\<close> does not parse and gives an invalid-JSON error.
\<close>

theorem C10_witness:
  "fst (example_json_parse ''[]'') = [] \<and> \<not> is_object (snd (example_json_parse ''[]''))
   \<and> StructuralTagToGrammar example_json_parse (\<lambda>v. Aborted) 100 (\<lambda>f. Ok f) Some ''[]'' =
        Err (InvalidStructuralTagError ''Structural tag must be an object'')
   \<and> StructuralTagToGrammar example_json_parse (\<lambda>v. Aborted) 100 (\<lambda>f. Ok f) Some ''{'' =
        Err (InvalidJSONError ''Failed to parse JSON: syntax error'')"
proof -
  have h: "fst (example_json_parse ''[]'') = [] \<and> \<not> is_object (snd (example_json_parse ''[]''))"
    by (simp add: example_json_parse_def)
  have e: "fst (example_json_parse ''{'') \<noteq> []" by (simp add: example_json_parse_def)
  show ?thesis
    using C10_top_level_error_kinds[of example_json_parse "''[]''" "\<lambda>v. Aborted" 100 "\<lambda>f. Ok f" Some] h
      C10_top_level_error_kinds[of example_json_parse "''{''" "\<lambda>v. Aborted" 100 "\<lambda>f. Ok f" Some] e
    by (auto simp: StructuralTagToGrammar_def FromJSON_def example_json_parse_def)
qed

section \<open>Results about the schema parser\<close>

lemma integer_bound_value:
  "map_of obj k = Some v \<Longrightarrow> checkAndConvertIntegerBound ops v = Ok a \<Longrightarrow>
   integer_bound ops obj k = Ok (Some a)"
  by (simp add: integer_bound_def bind_def)

lemma integer_bound_ok:
  "converts_or_absent ops (map_of obj k) \<Longrightarrow> \<exists>x. integer_bound ops obj k = Ok x"
  by (cases "map_of obj k")
     (auto simp: integer_bound_def bind_def converts_or_absent_def split: Result.splits)

lemma ParseInteger_unsat:
  assumes "map_of obj ''minimum'' = Some vmin" and "map_of obj ''maximum'' = Some vmax"
      and "checkAndConvertIntegerBound ops vmin = Ok a"
      and "checkAndConvertIntegerBound ops vmax = Ok b"
      and "a > b"
      and "converts_or_absent ops (map_of obj ''exclusiveMinimum'')"
      and "converts_or_absent ops (map_of obj ''exclusiveMaximum'')"
  shows "error_kind (ParseInteger ops obj) = Some kUnsatisfiableSchema"
proof -
  obtain emn where 3: "integer_bound ops obj ''exclusiveMinimum'' = Ok emn"
    using integer_bound_ok[OF assms(6)] by blast
  obtain emx where 4: "integer_bound ops obj ''exclusiveMaximum'' = Ok emx"
    using integer_bound_ok[OF assms(7)] by blast
  have lo: "a \<le> (case emn of None \<Rightarrow> a | Some e \<Rightarrow> max a (e + 1))"
    by (cases emn) auto
  have hi: "(case emx of None \<Rightarrow> b | Some e \<Rightarrow> min b (e - 1)) \<le> b"
    by (cases emx) auto
  have gt: "(case emn of None \<Rightarrow> a | Some e \<Rightarrow> max a (e + 1)) >
            (case emx of None \<Rightarrow> b | Some e \<Rightarrow> min b (e - 1))"
    using lo hi assms(5) by linarith
  show ?thesis
    using gt
    by (simp add: ParseInteger_def integer_bound_value[OF assms(1) assms(3)]
        integer_bound_value[OF assms(2) assms(4)] 3 4 bind_def error_kind_def Let_def)
qed

lemma number_bound_value:
  "map_of obj k = Some v \<Longrightarrow> getDouble ops v = Ok a \<Longrightarrow> number_bound ops obj k = Ok (Some a)"
  by (simp add: number_bound_def bind_def)

lemma number_bound_ok:
  "number_or_absent (map_of obj k) \<Longrightarrow> \<exists>x. number_bound ops obj k = Ok x"
  by (cases "map_of obj k")
     (auto simp: number_bound_def bind_def getDouble_def number_or_absent_def split: json.splits)

lemma ParseNumber_unsat:
  assumes "map_of obj ''minimum'' = Some va" and "map_of obj ''maximum'' = Some vb"
      and "getDouble ops va = Ok a" and "getDouble ops vb = Ok b"
      and "a > b"
      and "number_or_absent (map_of obj ''exclusiveMinimum'')"
      and "number_or_absent (map_of obj ''exclusiveMaximum'')"
  shows "error_kind (ParseNumber ops obj) = Some kUnsatisfiableSchema"
proof -
  obtain emn where 3: "number_bound ops obj ''exclusiveMinimum'' = Ok emn"
    using number_bound_ok[OF assms(6)] by blast
  obtain emx where 4: "number_bound ops obj ''exclusiveMaximum'' = Ok emx"
    using number_bound_ok[OF assms(7)] by blast
  obtain lo where lo: "effective_min_number (Some a) emn = Some lo" "a \<le> lo"
    by (cases emn) (auto simp: effective_min_number_def)
  obtain hi where hi: "effective_max_number (Some b) emx = Some hi" "hi \<le> b"
    by (cases emx) (auto simp: effective_max_number_def)
  have gt: "lo > hi" using lo(2) hi(2) assms(5) by order
  show ?thesis
    using gt lo(1) hi(1)
    by (simp add: ParseNumber_def number_bound_value[OF assms(1) assms(3)]
        number_bound_value[OF assms(2) assms(4)] 3 4 bind_def error_kind_def)
qed

lemma error_kind_finish:
  "error_kind r = Some k \<Longrightarrow> error_kind (fst (finish key hint c (bind r f))) = Some k"
  by (cases r) (auto simp: error_kind_def finish_def bind_def)

lemma Parse_false_unsat:
  "schema_cache (ComputeCacheKey ops (JBool False)) = None \<Longrightarrow>
   error_kind (fst (Parse ops ParseOther (JBool False) hint default_type schema_cache))
     = Some kUnsatisfiableSchema"
  by (simp add: Parse_def error_kind_def Let_def)

lemma Parse_integer:
  "schema_cache (ComputeCacheKey ops (JObject obj)) = None \<Longrightarrow>
   dispatches_on_type obj ''integer'' \<Longrightarrow>
   fst (Parse ops ParseOther (JObject obj) hint default_type schema_cache) =
   fst (finish (ComputeCacheKey ops (JObject obj)) hint schema_cache
          (bind (ParseInteger ops obj) (\<lambda>x. Ok (IntegerSpecV x))))"
  by (simp add: Parse_def dispatches_on_type_def has_key_def Let_def del: ComputeCacheKey.simps)

lemma Parse_number:
  "schema_cache (ComputeCacheKey ops (JObject obj)) = None \<Longrightarrow>
   dispatches_on_type obj ''number'' \<Longrightarrow>
   fst (Parse ops ParseOther (JObject obj) hint default_type schema_cache) =
   fst (finish (ComputeCacheKey ops (JObject obj)) hint schema_cache
          (bind (ParseNumber ops obj) (\<lambda>x. Ok (NumberSpecV x))))"
  by (simp add: Parse_def dispatches_on_type_def has_key_def Let_def del: ComputeCacheKey.simps)

text \<open>
  C9 (as amended).  The kind \<open>kUnsatisfiableSchema\<close> differs from \<open>kInvalidSchema\<close>, and \<open>Parse\<close>
  returns an error of that kind, on a schema that is not in its cache,
  \<^item> for the boolean schema \<open>false\<close>;
  \<^item> for an object without the keys \<open>$ref\<close>, \<open>const\<close>, \<open>enum\<close>, \<open>anyOf\<close>, \<open>oneOf\<close>,
    \<open>allOf\<close> whose \<open>type\<close> is the string \<open>integer\<close>, whose \<open>minimum\<close> and \<open>maximum\<close> are
    both present and are each converted to an integer by \<open>checkAndConvertIntegerBound\<close>
    (an integer, or a whole double inside the 64-bit range), the minimum being the
    greater, and whose \<open>exclusiveMinimum\<close> and \<open>exclusiveMaximum\<close> are each absent or
    converted likewise;
  \<^item> for such an object whose \<open>type\<close> is the string \<open>number\<close>, whose \<open>minimum\<close> and
    \<open>maximum\<close> are both present and numbers (integers or doubles), the minimum being the
    greater as a double, and whose exclusive bounds are each absent or numbers.
\<close>

theorem C9_unsatisfiable_error_kind:
  "kUnsatisfiableSchema \<noteq> kInvalidSchema
   \<and> (schema_cache (ComputeCacheKey ops (JBool False)) = None \<longrightarrow>
        error_kind (fst (Parse ops ParseOther (JBool False) hint default_type schema_cache))
          = Some kUnsatisfiableSchema)
   \<and> (schema_cache (ComputeCacheKey ops (JObject obj)) = None \<and> dispatches_on_type obj ''integer''
        \<and> map_of obj ''minimum'' = Some vmin \<and> map_of obj ''maximum'' = Some vmax
        \<and> checkAndConvertIntegerBound ops vmin = Ok a
        \<and> checkAndConvertIntegerBound ops vmax = Ok b \<and> a > b
        \<and> converts_or_absent ops (map_of obj ''exclusiveMinimum'')
        \<and> converts_or_absent ops (map_of obj ''exclusiveMaximum'') \<longrightarrow>
        error_kind (fst (Parse ops ParseOther (JObject obj) hint default_type schema_cache))
          = Some kUnsatisfiableSchema)
   \<and> (schema_cache (ComputeCacheKey ops (JObject obj)) = None \<and> dispatches_on_type obj ''number''
        \<and> map_of obj ''minimum'' = Some va \<and> map_of obj ''maximum'' = Some vb
        \<and> getDouble ops va = Ok x \<and> getDouble ops vb = Ok y \<and> x > y
        \<and> number_or_absent (map_of obj ''exclusiveMinimum'')
        \<and> number_or_absent (map_of obj ''exclusiveMaximum'') \<longrightarrow>
        error_kind (fst (Parse ops ParseOther (JObject obj) hint default_type schema_cache))
          = Some kUnsatisfiableSchema)"
proof (intro conjI impI)
  show "kUnsatisfiableSchema \<noteq> kInvalidSchema" by simp
next
  assume "schema_cache (ComputeCacheKey ops (JBool False)) = None"
  then show "error_kind (fst (Parse ops ParseOther (JBool False) hint default_type schema_cache))
          = Some kUnsatisfiableSchema"
    by (rule Parse_false_unsat)
next
  assume h: "schema_cache (ComputeCacheKey ops (JObject obj)) = None \<and> dispatches_on_type obj ''integer''
        \<and> map_of obj ''minimum'' = Some vmin \<and> map_of obj ''maximum'' = Some vmax
        \<and> checkAndConvertIntegerBound ops vmin = Ok a
        \<and> checkAndConvertIntegerBound ops vmax = Ok b \<and> a > b
        \<and> converts_or_absent ops (map_of obj ''exclusiveMinimum'')
        \<and> converts_or_absent ops (map_of obj ''exclusiveMaximum'')"
  have "error_kind (ParseInteger ops obj) = Some kUnsatisfiableSchema"
    using h ParseInteger_unsat by blast
  then show "error_kind (fst (Parse ops ParseOther (JObject obj) hint default_type schema_cache))
          = Some kUnsatisfiableSchema"
    using h Parse_integer[of schema_cache ops obj ParseOther hint default_type]
    by (simp add: error_kind_finish del: ComputeCacheKey.simps)
next
  assume h: "schema_cache (ComputeCacheKey ops (JObject obj)) = None \<and> dispatches_on_type obj ''number''
        \<and> map_of obj ''minimum'' = Some va \<and> map_of obj ''maximum'' = Some vb
        \<and> getDouble ops va = Ok x \<and> getDouble ops vb = Ok y \<and> x > y
        \<and> number_or_absent (map_of obj ''exclusiveMinimum'')
        \<and> number_or_absent (map_of obj ''exclusiveMaximum'')"
  have "error_kind (ParseNumber ops obj) = Some kUnsatisfiableSchema"
    using h ParseNumber_unsat by blast
  then show "error_kind (fst (Parse ops ParseOther (JObject obj) hint default_type schema_cache))
          = Some kUnsatisfiableSchema"
    using h Parse_number[of schema_cache ops obj ParseOther hint default_type]
    by (simp add: error_kind_finish del: ComputeCacheKey.simps)
qed

text \<open>
  Witness for C9: the schemas \<open>false\<close>, \<open>{"type": "integer", "minimum": 5, "maximum": 3}\<close>,
  \<open>{"type": "integer", "minimum": 5.0, "maximum": 3}\<close> and
  \<open>{"type": "number", "minimum": 5, "maximum": 3.0}\<close>, parsed with an empty cache.
\<close>

theorem C9_witness:
  "error_kind (fst (Parse example_ops example_ParseOther (JBool False) ''root'' None (\<lambda>k. None)))
     = Some kUnsatisfiableSchema
   \<and> error_kind (fst (Parse example_ops example_ParseOther (JObject example_integer_schema)
                        ''root'' None (\<lambda>k. None))) = Some kUnsatisfiableSchema
   \<and> error_kind (fst (Parse example_ops example_ParseOther (JObject example_whole_double_schema)
                        ''root'' None (\<lambda>k. None))) = Some kUnsatisfiableSchema
   \<and> error_kind (fst (Parse example_ops example_ParseOther (JObject example_number_schema)
                        ''root'' None (\<lambda>k. None))) = Some kUnsatisfiableSchema"
proof -
  have i: "dispatches_on_type example_integer_schema ''integer''
        \<and> map_of example_integer_schema ''minimum'' = Some (JInt 5)
        \<and> map_of example_integer_schema ''maximum'' = Some (JInt 3)
        \<and> checkAndConvertIntegerBound example_ops (JInt 5) = Ok 5
        \<and> checkAndConvertIntegerBound example_ops (JInt 3) = Ok 3 \<and> (5::int) > 3
        \<and> converts_or_absent example_ops (map_of example_integer_schema ''exclusiveMinimum'')
        \<and> converts_or_absent example_ops (map_of example_integer_schema ''exclusiveMaximum'')"
    by (simp add: example_integer_schema_def dispatches_on_type_def has_key_def
        converts_or_absent_def checkAndConvertIntegerBound_def)
  have w: "dispatches_on_type example_whole_double_schema ''integer''
        \<and> map_of example_whole_double_schema ''minimum'' = Some (JDouble 5)
        \<and> map_of example_whole_double_schema ''maximum'' = Some (JInt 3)
        \<and> checkAndConvertIntegerBound example_ops (JDouble 5) = Ok 5
        \<and> checkAndConvertIntegerBound example_ops (JInt 3) = Ok 3 \<and> (5::int) > 3
        \<and> converts_or_absent example_ops (map_of example_whole_double_schema ''exclusiveMinimum'')
        \<and> converts_or_absent example_ops (map_of example_whole_double_schema ''exclusiveMaximum'')"
    by (simp add: example_whole_double_schema_def dispatches_on_type_def has_key_def
        converts_or_absent_def checkAndConvertIntegerBound_def example_ops_def
        INT64_MAX_def INT64_MIN_def)
  have n: "dispatches_on_type example_number_schema ''number''
        \<and> map_of example_number_schema ''minimum'' = Some (JInt 5)
        \<and> map_of example_number_schema ''maximum'' = Some (JDouble 3)
        \<and> getDouble example_ops (JInt 5) = Ok 5 \<and> getDouble example_ops (JDouble 3) = Ok 3
        \<and> (5::int) > 3
        \<and> number_or_absent (map_of example_number_schema ''exclusiveMinimum'')
        \<and> number_or_absent (map_of example_number_schema ''exclusiveMaximum'')"
    by (simp add: example_number_schema_def dispatches_on_type_def has_key_def
        number_or_absent_def getDouble_def example_ops_def)
  show ?thesis
    using i w n
      C9_unsatisfiable_error_kind[where schema_cache="\<lambda>k. None" and ops=example_ops
        and obj=example_integer_schema and a=5 and b=3 and ParseOther=example_ParseOther
        and hint="''root''" and default_type=None and vmin="JInt 5" and vmax="JInt 3"
        and va="JInt 5" and vb="JInt 5" and x=5 and y=5]
      C9_unsatisfiable_error_kind[where schema_cache="\<lambda>k. None" and ops=example_ops
        and obj=example_whole_double_schema and a=5 and b=3 and ParseOther=example_ParseOther
        and hint="''root''" and default_type=None and vmin="JDouble 5" and vmax="JInt 3"
        and va="JInt 5" and vb="JInt 5" and x=5 and y=5]
      C9_unsatisfiable_error_kind[where schema_cache="\<lambda>k. None" and ops=example_ops
        and obj=example_number_schema and a=5 and b=3 and ParseOther=example_ParseOther
        and hint="''root''" and default_type=None and vmin="JInt 5" and vmax="JInt 3"
        and va="JInt 5" and vb="JDouble 3" and x=5 and y=3]
    by simp
qed

text \<open>
  Counterexample to C9 as stated: the schema \<open>{"enum": []}\<close> is well formed and no
  value satisfies it, yet \<open>Parse\<close> succeeds with an enum spec without values; it
  returns no error at all.
\<close>

theorem C9_counterexample:
  "fst (Parse example_ops example_ParseOther (JObject [(''enum'', JArray [])]) ''root'' None
          (\<lambda>k. None))
     = Ok (Make (EnumSpecV []) ''{\"enum\":[]}'' ''root'')
   \<and> error_kind (fst (Parse example_ops example_ParseOther (JObject [(''enum'', JArray [])])
                        ''root'' None (\<lambda>k. None))) = None"
  by (simp add: Parse_def has_key_def ParseEnum_def bind_def finish_def error_kind_def
      kSkippedKeys_def Let_def)

section \<open>Results about the token-mask computer\<close>











text \<open>
  C1 (as amended).  Take a non-root state and a token that enters the matcher, is
  rejected mid-token (\<open>match_token\<close> returns \<open>False\<close>) and could have completed the rule
  at some earlier byte, and let the look-ahead test accept it.  If the look-ahead run
  completes, the token is classified uncertain.  If the look-ahead run consumes the rest
  of the token without completing, the token is classified accepted when the rule's
  look-ahead is marked exact, and uncertain when it is not.
\<close>

theorem C1_lookahead_classification:
  assumes "\<not> is_root_rule"
      and "\<not> i < last_rejected_range st"
      and "\<not> (speculative_calculation ctx \<and>
              speculative_accept ctx (snd (sorted_decoded_vocab ctx ! i)) i)"
      and "match_token (parser ctx) (snd (sorted_decoded_vocab ctx ! i)) st = (False, st1)"
      and "last (tmp_can_reach_end_prefix_or_stack st1)"
      and "prev_matched_size st1 > 0"
      and "IsTokenPassLookaheadAssertion (parser ctx) (lookahead_assertion_id (init_rule ctx))
             (snd (sorted_decoded_vocab ctx ! i)) (tmp_can_reach_end_stack st1) (parser_stack st1)
           = ((True, lookahead_completed), stack')"
  shows "process_token ctx is_root_rule st i =
           (if lookahead_completed \<or> \<not> is_exact_lookahead (init_rule ctx)
            then (st1\<lparr>parser_stack := stack',
                       tmp_uncertain_indices := tmp_uncertain_indices st1 @ [i]\<rparr>, Suc i)
            else (st1\<lparr>parser_stack := stack',
                       tmp_accepted_indices := tmp_accepted_indices st1 @ [i],
                       tmp_accepted_by_lookahead_indices :=
                         tmp_accepted_by_lookahead_indices st1 @ [i]\<rparr>, Suc i))"
proof -
  have spec: "(speculative_calculation ctx \<and>
              speculative_accept ctx (snd (sorted_decoded_vocab ctx ! i)) i) = False"
    using assms(3) by simp
  show ?thesis
    unfolding process_token_def Let_def
    by (simp only: assms(1,2,4,5,6,7) spec if_False if_True split simp_thms) simp
qed

text \<open>
  Witness for C1: the token \<open>"ab"\<close> against the rule \<open>"a"\<close> with the exact look-ahead
  \<open>"bc"\<close>; the look-ahead consumes \<open>"b"\<close> and stays open, and the token is accepted.
\<close>

theorem C1_witness:
  "process_token (example_context (Sequence [ByteString [98, 99]]) True) False
     (initial_mask_state [0]) 0
   = ((initial_mask_state [0])
        \<lparr>parser_stack := [1, 0], tmp_accepted_indices := [0],
         tmp_accepted_by_lookahead_indices := [0],
         tmp_can_reach_end_stack := [False, True],
         tmp_can_reach_end_prefix_or_stack := [False, True],
         prev_token := Some [97, 98], prev_matched_size := 1\<rparr>, 1)"
proof -
  let ?ctx = "example_context (Sequence [ByteString [98, 99]]) True"
  let ?st1 = "(initial_mask_state [0])
        \<lparr>parser_stack := [1, 0],
         tmp_can_reach_end_stack := [False, True],
         tmp_can_reach_end_prefix_or_stack := [False, True],
         prev_token := Some [97, 98], prev_matched_size := 1\<rparr>"
  have h1: "\<not> False" by simp
  have h2: "\<not> 0 < last_rejected_range (initial_mask_state [0])"
    by (simp add: initial_mask_state_def)
  have h3: "\<not> (speculative_calculation ?ctx \<and>
              speculative_accept ?ctx (snd (sorted_decoded_vocab ?ctx ! 0)) 0)"
    by (simp add: example_context_def)
  have h4: "match_token (parser ?ctx) (snd (sorted_decoded_vocab ?ctx ! 0)) (initial_mask_state [0])
            = (False, ?st1)"
    by code_simp
  have h5: "last (tmp_can_reach_end_prefix_or_stack ?st1)" by simp
  have h6: "prev_matched_size ?st1 > 0" by simp
  have h7: "IsTokenPassLookaheadAssertion (parser ?ctx) (lookahead_assertion_id (init_rule ?ctx))
             (snd (sorted_decoded_vocab ?ctx ! 0)) (tmp_can_reach_end_stack ?st1) (parser_stack ?st1)
           = ((True, False), [1, 0])"
    by code_simp
  show ?thesis
    using C1_lookahead_classification[OF h1 h2 h3 h4 h5 h6 h7]
    by (simp add: example_context_def initial_mask_state_def)
qed

text \<open>
  Counterexample to C1 as stated, on the token \<open>"ab"\<close> and the rule \<open>"a"\<close> in a non-root
  state.  With the exact look-ahead \<open>"b"\<close> the look-ahead run completes, and the token is
  uncertain, not accepted.  With the exact look-ahead \<open>"bc"\<close> the run consumes the rest
  of the token without completing, and the token is accepted, not uncertain.
\<close>

theorem C1_counterexample:
  "map_option uncertain_indices
     (GetAdaptiveTokenMask (example_context (Sequence [ByteString [98]]) True)
        no_crossing_cache [(0, 1)] [0] False) = Some [0]
   \<and> map_option accepted_indices
     (GetAdaptiveTokenMask (example_context (Sequence [ByteString [98]]) True)
        no_crossing_cache [(0, 1)] [0] False) = Some []
   \<and> IsTokenPassLookaheadAssertion example_parser (Some (Sequence [ByteString [98]]))
       [97, 98] [False, True] [1, 0] = ((True, True), [1, 0])
   \<and> map_option uncertain_indices
     (GetAdaptiveTokenMask (example_context (Sequence [ByteString [98, 99]]) True)
        no_crossing_cache [(0, 1)] [0] False) = Some []
   \<and> map_option accepted_indices
     (GetAdaptiveTokenMask (example_context (Sequence [ByteString [98, 99]]) True)
        no_crossing_cache [(0, 1)] [0] False) = Some [0]
   \<and> IsTokenPassLookaheadAssertion example_parser (Some (Sequence [ByteString [98, 99]]))
       [97, 98] [False, True] [1, 0] = ((True, False), [1, 0])"
  by code_simp

section \<open>Results about the grammar normalizer\<close>

lemma extends_normalized_refl: "extends_normalized b b"
  by (simp add: extends_normalized_def)

lemma extends_normalized_trans:
  "extends_normalized b b1 \<Longrightarrow> extends_normalized b1 b2 \<Longrightarrow> extends_normalized b b2"
  by (auto simp: extends_normalized_def)

lemma extends_normalized_AddRuleWithHint:
  "normalized_body body \<Longrightarrow> AddRuleWithHint b nm body = (rid, b') \<Longrightarrow> extends_normalized b b'"
  by (auto simp: extends_normalized_def AddRuleWithHint_def AddRule_def normalized_rule_def)

lemma finish_choices_normalized:
  assumes "finish_choices ids found_empty = Some sub" and "list_all is_atom_sequence ids"
  shows "normalized_choices sub"
    and "hd sub = EmptyStr \<Longrightarrow> list_all is_atom_sequence (tl sub)"
    and "hd sub \<noteq> EmptyStr \<Longrightarrow> list_all is_atom_sequence sub"
    and "length sub = 1 \<Longrightarrow> hd sub = EmptyStr \<or> is_atom_sequence (hd sub)"
  using assms
  by (cases ids; cases found_empty; auto simp: finish_choices_def Let_def split: if_splits)+

lemma is_atom_sequence_elements:
  "is_atom_sequence c \<Longrightarrow> c = Sequence elements \<Longrightarrow> list_all is_atom elements"
  by simp

lemma visit_invariant:
  "(\<forall>out b'. VisitSequence_ids nm b es = Some (out, b') \<longrightarrow>
       list_all is_atom out \<and> extends_normalized b b')"
  "(\<forall>out fe b'. VisitChoices_loop nm b cs = Some (out, fe, b') \<longrightarrow>
       list_all is_atom_sequence out \<and> extends_normalized b b')"
proof (induction nm b es and nm b cs rule: VisitSequence_ids_VisitChoices_loop.induct)
  case (1 cur_rule_name b)
  then show ?case by (simp add: extends_normalized_refl)
next
  case (2 cur_rule_name b xs es)
  show ?case
  proof (intro allI impI)
    fix out b'
    assume r: "VisitSequence_ids cur_rule_name b (Sequence xs # es) = Some (out, b')"
    from r obtain sub b1 where l: "VisitSequence_ids cur_rule_name b xs = Some (sub, b1)"
      by (auto split: option.splits)
    from r l obtain rest where
      rs: "VisitSequence_ids cur_rule_name b1 es = Some (rest, b')" and o: "out = sub @ rest"
      by (auto split: option.splits)
    have i1: "list_all is_atom sub" "extends_normalized b b1"
      using "2.IH"(1) l by auto
    have i3: "list_all is_atom rest \<and> extends_normalized b1 b'"
      using "2.IH"(2)[OF l refl] rs by auto
    show "list_all is_atom out \<and> extends_normalized b b'"
      using i1 i3 o by (auto dest: extends_normalized_trans)
  qed
next
  case (3 cur_rule_name b cs es)
  show ?case
  proof (intro allI impI)
    fix out b'
    assume r: "VisitSequence_ids cur_rule_name b (Choices cs # es) = Some (out, b')"
    from r obtain ids fe b1 where l: "VisitChoices_loop cur_rule_name b cs = Some (ids, fe, b1)"
      by (auto split: option.splits)
    from r l obtain sub where f: "finish_choices ids fe = Some sub"
      by (auto split: option.splits)
    have i1: "list_all is_atom_sequence ids" "extends_normalized b b1"
      using "3.IH"(1) l by auto
    note fn = finish_choices_normalized[OF f i1(1)]
    from r l f obtain front b2 where
      fr: "(if length sub = 1 then
              (case hd sub of
                 EmptyStr \<Rightarrow> Some ([], b1)
               | Sequence elements \<Rightarrow> Some (elements, b1)
               | _ \<Rightarrow> None)
            else
              (let (new_choice_rule_id, b1') = AddRuleWithHint b1 cur_rule_name (Choices sub)
               in Some ([RuleRef (int new_choice_rule_id)], b1'))) = Some (front, b2)"
      by (auto split: option.splits)
    from r l f fr obtain rest where
      rs: "VisitSequence_ids cur_rule_name b2 es = Some (rest, b')" and o: "out = front @ rest"
      by (auto split: option.splits)
    have i2: "list_all is_atom front \<and> extends_normalized b1 b2"
    proof (cases "length sub = 1")
      case True
      then show ?thesis using fr fn(4)
        by (cases "hd sub") (auto simp: extends_normalized_refl split: if_splits)
    next
      case False
      obtain rid b1' where a: "AddRuleWithHint b1 cur_rule_name (Choices sub) = (rid, b1')"
        by (cases "AddRuleWithHint b1 cur_rule_name (Choices sub)")
      have "extends_normalized b1 b1'"
        using extends_normalized_AddRuleWithHint[OF _ a] fn(1) by simp
      then show ?thesis using fr False a by auto
    qed
    have i3: "list_all is_atom rest \<and> extends_normalized b2 b'"
      using "3.IH"(2)[OF l refl refl f fr refl] rs by auto
    show "list_all is_atom out \<and> extends_normalized b b'"
      using i1 i2 i3 o by (auto dest: extends_normalized_trans)
  qed
next
  case (4 cur_rule_name b es)
  then show ?case by simp
next
  case (5 cur_rule_name b td es)
  obtain rid b1 where a: "AddRuleWithHint b cur_rule_name (TagDispatchExpr td) = (rid, b1)"
    by (cases "AddRuleWithHint b cur_rule_name (TagDispatchExpr td)")
  have e: "extends_normalized b b1"
    using extends_normalized_AddRuleWithHint[OF _ a] by simp
  show ?case using "5.IH"[OF a[symmetric] refl] a e
    by (auto split: option.splits dest: extends_normalized_trans)
next
  case (6 cur_rule_name b bs es)
  then show ?case by (auto split: option.splits)
next
  case (7 cur_rule_name b neg rs es)
  then show ?case by (auto split: option.splits)
next
  case (8 cur_rule_name b neg rs es)
  then show ?case by (auto split: option.splits)
next
  case (9 cur_rule_name b r es)
  then show ?case by (auto split: option.splits)
next
  case (10 cur_rule_name b r lo hi es)
  then show ?case by (auto split: option.splits)
next
  case (11 cur_rule_name b)
  then show ?case by (simp add: extends_normalized_refl)
next
  case (12 cur_rule_name b xs es)
  show ?case
  proof (intro allI impI)
    fix out fe b'
    assume r: "VisitChoices_loop cur_rule_name b (Sequence xs # es) = Some (out, fe, b')"
    from r obtain sub b1 where l: "VisitSequence_ids cur_rule_name b xs = Some (sub, b1)"
      by (auto split: option.splits)
    from r l obtain rest fe1 where
      rs: "VisitChoices_loop cur_rule_name b1 es = Some (rest, fe1, b')"
      by (auto split: option.splits if_splits)
    have o: "out = (if length sub = 0 then rest else Sequence sub # rest)"
      using r l rs by (auto split: if_splits)
    have i1: "list_all is_atom sub" "extends_normalized b b1"
      using "12.IH"(1) l by auto
    have i3: "list_all is_atom_sequence rest \<and> extends_normalized b1 b'"
      using "12.IH"(2)[OF l refl] rs by auto
    show "list_all is_atom_sequence out \<and> extends_normalized b b'"
      using i1 i3 o by (auto dest: extends_normalized_trans)
  qed
next
  case (13 cur_rule_name b cs es)
  show ?case
  proof (intro allI impI)
    fix out fe b'
    assume r: "VisitChoices_loop cur_rule_name b (Choices cs # es) = Some (out, fe, b')"
    from r obtain ids fe0 b1 where l: "VisitChoices_loop cur_rule_name b cs = Some (ids, fe0, b1)"
      by (auto split: option.splits)
    from r l obtain sub where f: "finish_choices ids fe0 = Some sub"
      by (auto split: option.splits)
    from r l f obtain rest fe1 where
      rs: "VisitChoices_loop cur_rule_name b1 es = Some (rest, fe1, b')"
      by (auto split: option.splits if_splits)
    have o: "out = (if hd sub = EmptyStr then tl sub @ rest else sub @ rest)"
      using r l f rs by (auto split: if_splits)
    have i1: "list_all is_atom_sequence ids" "extends_normalized b b1"
      using "13.IH"(1) l by auto
    note fn = finish_choices_normalized[OF f i1(1)]
    have i3: "list_all is_atom_sequence rest \<and> extends_normalized b1 b'"
      using "13.IH"(2)[OF l refl refl f] rs by auto
    show "list_all is_atom_sequence out \<and> extends_normalized b b'"
      using i1 i3 o fn(2,3) by (auto dest: extends_normalized_trans)
  qed
next
  case (14 cur_rule_name b es)
  then show ?case by (auto split: option.splits)
next
  case (15 cur_rule_name b td es)
  obtain rid b1 where a: "AddRuleWithHint b cur_rule_name (TagDispatchExpr td) = (rid, b1)"
    by (cases "AddRuleWithHint b cur_rule_name (TagDispatchExpr td)")
  have e: "extends_normalized b b1"
    using extends_normalized_AddRuleWithHint[OF _ a] by simp
  show ?case using "15.IH"[OF a[symmetric] refl] a e
    by (auto split: option.splits dest: extends_normalized_trans)
next
  case (16 cur_rule_name b bs es)
  then show ?case by (auto split: option.splits)
next
  case (17 cur_rule_name b neg rs es)
  then show ?case by (auto split: option.splits)
next
  case (18 cur_rule_name b neg rs es)
  then show ?case by (auto split: option.splits)
next
  case (19 cur_rule_name b r es)
  then show ?case by (auto split: option.splits)
next
  case (20 cur_rule_name b r lo hi es)
  then show ?case by (auto split: option.splits)
qed


lemma VisitChoices_ids_normalized:
  assumes "VisitChoices_ids nm b cs = Some (ids, b')"
  shows "normalized_choices ids \<and> extends_normalized b b'"
proof -
  from assms obtain out fe where l: "VisitChoices_loop nm b cs = Some (out, fe, b')"
    and f: "finish_choices out fe = Some ids"
    by (auto simp: VisitChoices_ids_def split: option.splits)
  have "list_all is_atom_sequence out" "extends_normalized b b'"
    using visit_invariant(2)[of nm b cs] l by auto
  then show ?thesis using finish_choices_normalized(1)[OF f] by simp
qed

lemma VisitRuleBody_normalized:
  assumes "VisitRuleBody nm b e = Some (body, b')"
  shows "normalized_body body \<and> extends_normalized b b'"
proof (cases e)
  case (Sequence es)
  then obtain ids where "VisitSequence_ids nm b es = Some (ids, b')" "body = Choices [Sequence ids]"
    using assms by (auto split: option.splits)
  then show ?thesis using visit_invariant(1)[of nm b es] by auto
next
  case (Choices cs)
  then obtain ids where "VisitChoices_ids nm b cs = Some (ids, b')" "body = Choices ids"
    using assms by (auto split: option.splits)
  then show ?thesis using VisitChoices_ids_normalized by auto
qed (use assms in \<open>auto simp: extends_normalized_refl\<close>)

lemma VisitLookaheadAssertion_normalized:
  assumes "VisitLookaheadAssertion nm b la = Some (la', b')"
  shows "normalized_lookahead la' \<and> extends_normalized b b'"
proof (cases la)
  case None
  then show ?thesis using assms by (auto simp: extends_normalized_refl normalized_lookahead_def)
next
  case (Some e)
  show ?thesis
  proof (cases e)
    case (Sequence es)
    then obtain ids where "VisitSequence_ids nm b es = Some (ids, b')" "la' = Some (Sequence ids)"
      using assms Some by (auto split: option.splits)
    then show ?thesis using visit_invariant(1)[of nm b es] by (auto simp: normalized_lookahead_def)
  qed (use assms Some in \<open>auto simp: extends_normalized_refl normalized_lookahead_def\<close>)
qed

lemma rules_filled_step:
  assumes f: "rules_filled k n b" and k: "k < n"
    and e1: "extends_normalized b b1"
    and e2: "extends_normalized (UpdateRuleBody b1 k body) b2"
    and nb: "normalized_body body" and nl: "normalized_lookahead la"
  shows "rules_filled (Suc k) n (UpdateLookaheadAssertion b2 k la)"
proof -
  from e1 obtain new1 where b1: "b1 = b @ new1" and n1: "list_all normalized_rule new1"
    by (auto simp: extends_normalized_def)
  from e2 obtain new2 where b2: "b2 = UpdateRuleBody b1 k body @ new2"
    and n2: "list_all normalized_rule new2"
    by (auto simp: extends_normalized_def)
  from f have len: "n \<le> length b"
    and old: "\<And>j. j < length b \<Longrightarrow> j < k \<or> n \<le> j \<Longrightarrow> normalized_rule (b ! j)"
    by (auto simp: rules_filled_def)
  let ?b3 = "UpdateLookaheadAssertion b2 k la"
  have l3: "length ?b3 = length b + length new1 + length new2"
    by (simp add: UpdateLookaheadAssertion_def b2 UpdateRuleBody_def b1)
  have "normalized_rule (?b3 ! j)" if j: "j < length ?b3" "j < Suc k \<or> n \<le> j" for j
  proof (cases "j = k")
    case True
    have "?b3 ! k = (b ! k)\<lparr>body_expr_id := Some body, lookahead_assertion_id := la\<rparr>"
      using k len
      by (simp add: UpdateLookaheadAssertion_def b2 UpdateRuleBody_def b1 nth_append
          list_update_append)
    then show ?thesis using True nb nl
      by (simp add: normalized_rule_def normalized_lookahead_def)
  next
    case False
    have r: "?b3 ! j = (b @ new1 @ new2) ! j"
      using False k len
      by (simp add: UpdateLookaheadAssertion_def b2 UpdateRuleBody_def b1 nth_append
          list_update_append)
    show ?thesis
    proof (cases "j < length b")
      case True
      then show ?thesis using r old[of j] j \<open>j \<noteq> k\<close> by (auto simp: nth_append)
    next
      case False
      then have "(b @ new1 @ new2) ! j = (new1 @ new2) ! (j - length b)"
        by (simp add: nth_append)
      moreover have "j - length b < length (new1 @ new2)" using j(1) l3 False by simp
      moreover have "list_all normalized_rule (new1 @ new2)" using n1 n2 by simp
      ultimately show ?thesis using r by (simp add: list_all_length del: list_all_append)
    qed
  qed
  then show ?thesis using len l3 by (simp add: rules_filled_def)
qed

lemma normalize_rules_filled:
  "rules_filled k n b \<Longrightarrow> k + length rs = n \<Longrightarrow> normalize_rules b (enumerate k rs) = Some b' \<Longrightarrow>
   list_all normalized_rule b'"
proof (induction rs arbitrary: k b)
  case Nil
  then show ?case by (auto simp: rules_filled_def list_all_length)
next
  case (Cons rule rest)
  from Cons.prems(3) obtain e where e: "body_expr_id rule = Some e"
    by (auto split: option.splits)
  from Cons.prems(3) e obtain body b1 where
    v: "VisitRuleBody (name rule) b e = Some (body, b1)"
    by (auto split: option.splits)
  from Cons.prems(3) e v obtain la b2 where
    w: "VisitLookaheadAssertion (name rule) (UpdateRuleBody b1 k body)
          (lookahead_assertion_id rule) = Some (la, b2)"
    by (auto split: option.splits)
  from Cons.prems(3) e v w have
    r: "normalize_rules (UpdateLookaheadAssertion b2 k la) (enumerate (Suc k) rest) = Some b'"
    by simp
  have "k < n" using Cons.prems(2) by simp
  then have "rules_filled (Suc k) n (UpdateLookaheadAssertion b2 k la)"
    using rules_filled_step[OF Cons.prems(1), of b1 body b2 la]
      VisitRuleBody_normalized[OF v] VisitLookaheadAssertion_normalized[OF w]
    by blast
  then show ?case using Cons.IH[OF _ _ r] Cons.prems(2) by simp
qed

lemma length_add_empty_rules: "length (add_empty_rules b rs) = length b + length rs"
  by (induction rs arbitrary: b) (simp_all add: AddEmptyRule_def)

text \<open>
  C8.  Whenever the grammar normalizer returns a grammar, every rule of that grammar is
  in normal form: its body is a tag dispatch or a choices expression whose children
  are sequences of atoms (byte string, character class, character class star, rule
  reference, repeat), except that the first child may be the empty string, and its
  look-ahead assertion, when present, is a sequence of atoms.
\<close>

theorem C8_normalizer_normal_form:
  assumes "StructureNormalizer_Apply CharToUTF8 grammar = Some grammar'"
  shows "list_all normalized_rule (rules grammar')"
proof -
  let ?g = "SingleElementExprEliminator_Apply CharToUTF8 grammar"
  let ?b0 = "add_empty_rules [] (rules ?g)"
  from assms obtain b where
    n: "normalize_rules ?b0 (enumerate 0 (rules ?g)) = Some b"
    and g: "Get b (name (rules ?g ! root_rule_id ?g)) = Some grammar'"
    by (auto simp: StructureNormalizer_Apply_def Let_def split: if_splits option.splits)
  have "rules_filled 0 (length (rules ?g)) ?b0"
    by (simp add: rules_filled_def length_add_empty_rules)
  then have "list_all normalized_rule b"
    using normalize_rules_filled[OF _ _ n] by simp
  moreover have "rules grammar' = b"
    using g by (auto simp: Get_def split: option.splits)
  ultimately show ?thesis by simp
qed

theorem C8_witness:
  "StructureNormalizer_Apply example_CharToUTF8 example_grammar = Some example_normalized_grammar
   \<and> list_all normalized_rule (rules example_normalized_grammar)"
proof -
  have e: "StructureNormalizer_Apply example_CharToUTF8 example_grammar
             = Some example_normalized_grammar"
    by code_simp
  from C8_normalizer_normal_form[OF e] e show ?thesis by simp
qed

end
